theory Spec2Isabelle
  imports Complex_Main
begin

section \<open>Numbers, errors and the module-level parameters\<close>

text \<open>
  The script \<^verbatim>\<open>pa-uav-noma.py\<close> computes with numpy \<^verbatim>\<open>float64\<close> values. They are
  modelled by the reals: \<^verbatim>\<open>np.log\<close> is \<open>ln\<close>, \<^verbatim>\<open>np.sqrt\<close> is \<open>sqrt\<close>, \<^verbatim>\<open>**\<close> with a
  natural exponent is \<open>^\<close>. Rounding, \<^verbatim>\<open>inf\<close> and \<^verbatim>\<open>nan\<close> are outside the model, so the
  statements below that depend on a value (and not only on which formula is used) keep
  the arguments of \<open>ln\<close> positive and the denominators non-zero.

  An index outside a list or an array raises \<^verbatim>\<open>IndexError\<close>; an array of the wrong
  size stored into one array element, the maximum of an empty sequence and a negative
  scale given to \<^verbatim>\<open>np.random.normal\<close> raise \<^verbatim>\<open>ValueError\<close>; a division by zero of
  plain Python numbers raises \<^verbatim>\<open>ZeroDivisionError\<close> (a division of numpy floats does
  not raise). Each ends the script, so every function returns \<open>error + result\<close>.
\<close>

datatype error = IndexError | ValueError | ZeroDivisionError

text \<open>
  The parameters of lines 24 to 47. \<^verbatim>\<open>K\<close> and \<^verbatim>\<open>P_los\<close> are the fields \<open>K_factor\<close>
  and \<open>P_los\<close>; \<^verbatim>\<open>s\<close>, \<^verbatim>\<open>sigma\<close> and \<^verbatim>\<open>snr_linear\<close> are computed from the others, as
  in the script. Line 35 divides \<^verbatim>\<open>K\<close> by \<^verbatim>\<open>K+1\<close> in plain Python, which raises
  \<^verbatim>\<open>ZeroDivisionError\<close> when \<^verbatim>\<open>K+1\<close> is zero; line 36 divides by a numpy float, which
  does not raise, and is reached only when line 35 has not raised.
\<close>

record config =
  N_mc :: nat
  N_users :: nat
  M_uav :: nat
  snr_dB :: "int list"
  path_loss_exp :: nat
  P_los :: real
  K_factor :: real
  target_rate_primary_user :: real
  target_rate_secondary_user :: real
  powerCoeff :: "real list"
  radius_uav :: real
  radius_user :: real

definition snr_linear :: "config \<Rightarrow> real list" where
  "snr_linear cfg = map (\<lambda>d. 10 powr (real_of_int d / 10)) (snr_dB cfg)"

definition rician_s :: "config \<Rightarrow> error + real" where
  "rician_s cfg =
     (if K_factor cfg + 1 = 0 then Inl ZeroDivisionError
      else Inr (sqrt (K_factor cfg / (K_factor cfg + 1) * P_los cfg)))"

definition rician_sigma :: "config \<Rightarrow> real" where
  "rician_sigma cfg = P_los cfg / sqrt (2 * (K_factor cfg + 1))"

definition script_config :: config where
  "script_config =
     \<lparr>N_mc = 10 ^ 4, N_users = 2, M_uav = 1,
      snr_dB = map (\<lambda>k. 10 + 2 * int k) [0..<21],
      path_loss_exp = 2, P_los = 1, K_factor = 8,
      target_rate_primary_user = 1, target_rate_secondary_user = 1 / 2,
      powerCoeff = [8 / 10, 2 / 10],
      radius_uav = 1, radius_user = 2\<rparr>"

section \<open>The rate engine: \<^verbatim>\<open>calculate_Instantaneous_Rate\<close>\<close>

text \<open>
  The four arrays of lines 173 to 176 live in the scope around the function, which
  writes into them; the function returns the two rate arrays.
\<close>

record rate_arrays =
  sinr_primary :: "real list"
  sinr_secondary :: "real list"
  inst_rate_primary :: "real list"
  inst_rate_secondary :: "real list"

definition init_rate_arrays :: "config \<Rightarrow> rate_arrays" where
  "init_rate_arrays cfg =
     \<lparr>sinr_primary = replicate (length (snr_dB cfg)) 0,
      sinr_secondary = replicate (length (snr_dB cfg)) 0,
      inst_rate_primary = replicate (length (snr_dB cfg)) 0,
      inst_rate_secondary = replicate (length (snr_dB cfg)) 0\<rparr>"

text \<open>One pass of the loop body, lines 206 to 214, at the index \<open>sn\<close>.\<close>

definition rate_body ::
  "config \<Rightarrow> real \<Rightarrow> real \<Rightarrow> real list \<Rightarrow> real \<Rightarrow> nat \<Rightarrow> rate_arrays \<Rightarrow> error + rate_arrays" where
  "rate_body cfg channelPri channelSec power_coeff target_RatePri sn st =
     (if sn < length (snr_linear cfg) \<and> 1 < length power_coeff
         \<and> sn < length (sinr_primary st) \<and> sn < length (inst_rate_primary st)
         \<and> sn < length (sinr_secondary st) \<and> sn < length (inst_rate_secondary st)
      then
        let g = snr_linear cfg ! sn;
            st1 = st\<lparr>sinr_primary := (sinr_primary st)
                     [sn := (g * channelPri * power_coeff ! 0) / (g * channelSec * power_coeff ! 1 + 1)]\<rparr>;
            st2 = st1\<lparr>inst_rate_primary := (inst_rate_primary st1)
                     [sn := ln (1 + sinr_primary st1 ! sn)]\<rparr>;
            st3 = (if inst_rate_primary st2 ! sn < target_RatePri
                   then
                     let st2a = st2\<lparr>sinr_primary := (sinr_primary st2)[sn := g * channelPri]\<rparr>
                     in st2a\<lparr>inst_rate_primary := (inst_rate_primary st2a)
                            [sn := 0.5 * ln (1 + sinr_primary st2a ! sn)]\<rparr>
                   else st2);
            st4 = st3\<lparr>sinr_secondary := (sinr_secondary st3)
                     [sn := g * channelSec * power_coeff ! 1]\<rparr>
        in Inr (st4\<lparr>inst_rate_secondary := (inst_rate_secondary st4)
                     [sn := ln (1 + sinr_secondary st4 ! sn)]\<rparr>)
      else Inl IndexError)"

fun rate_loop ::
  "config \<Rightarrow> real \<Rightarrow> real \<Rightarrow> real list \<Rightarrow> real \<Rightarrow> nat list \<Rightarrow> rate_arrays \<Rightarrow> error + rate_arrays" where
  "rate_loop cfg channelPri channelSec power_coeff target_RatePri [] st = Inr st"
| "rate_loop cfg channelPri channelSec power_coeff target_RatePri (sn # sns) st =
     (case rate_body cfg channelPri channelSec power_coeff target_RatePri sn st of
        Inl e \<Rightarrow> Inl e
      | Inr st' \<Rightarrow> rate_loop cfg channelPri channelSec power_coeff target_RatePri sns st')"

text \<open>
  \<^verbatim>\<open>for sn in range(0, len(snrValues))\<close>: of the argument \<open>snrValues\<close> the function
  uses the length only, and reads the SNR from the module-level \<^verbatim>\<open>snr_linear\<close>.
  The result holds the two returned arrays, \<open>inst_rate_primary\<close> and
  \<open>inst_rate_secondary\<close>, and the two SINR arrays written on the way.
\<close>

definition calculate_Instantaneous_Rate ::
  "config \<Rightarrow> rate_arrays \<Rightarrow> real \<Rightarrow> real \<Rightarrow> 'a list \<Rightarrow> real list \<Rightarrow> real \<Rightarrow> error + rate_arrays" where
  "calculate_Instantaneous_Rate cfg st channelPri channelSec snrValues power_coeff target_RatePri =
     rate_loop cfg channelPri channelSec power_coeff target_RatePri [0..<length snrValues] st"

section \<open>The random source\<close>

text \<open>
  numpy's global generator is modelled by the sequence of the variates it is going to
  deliver and the number of variates delivered so far. \<^verbatim>\<open>np.random.rand(n,1)\<close> takes
  the next \<open>n\<close> variates, each a uniform draw from \<open>[0,1)\<close>;
  \<^verbatim>\<open>np.random.normal(loc,scale)\<close> raises \<^verbatim>\<open>ValueError\<close> when the scale is negative;
  otherwise it takes the next variate, a standard normal draw \<open>z\<close>, and returns
  \<open>loc + scale * z\<close>.
\<close>

type_synonym variates = "nat \<Rightarrow> real"

definition np_random_rand :: "variates \<Rightarrow> nat \<Rightarrow> nat \<Rightarrow> real list \<times> nat" where
  "np_random_rand rng pos n = (map rng [pos..<pos + n], pos + n)"

definition np_random_normal ::
  "variates \<Rightarrow> nat \<Rightarrow> real \<Rightarrow> real \<Rightarrow> error + real \<times> nat" where
  "np_random_normal rng pos loc scale =
     (if scale < 0 then Inl ValueError else Inr (loc + scale * rng pos, Suc pos))"

section \<open>Geometry: \<^verbatim>\<open>random_Position_UAV\<close> and \<^verbatim>\<open>random_Position_Users\<close>\<close>

text \<open>An \<open>n\<close> by 1 array is the list of its \<open>n\<close> entries.\<close>

definition random_Position_UAV ::
  "variates \<Rightarrow> nat \<Rightarrow> nat \<Rightarrow> real \<Rightarrow> (real list \<times> real list \<times> real) \<times> nat" where
  "random_Position_UAV rng pos numberUAV radiusUAV =
     (let (u, pos1) = np_random_rand rng pos numberUAV;
          theta_r = map (\<lambda>x. x * (pi * 2)) u;
          rho_r = radiusUAV;
          x_r = map (\<lambda>th. rho_r * cos th) theta_r;
          y_r = map (\<lambda>th. rho_r * sin th) theta_r;
          z_r = 30
      in ((x_r, y_r, z_r), pos1))"

definition random_Position_Users ::
  "variates \<Rightarrow> nat \<Rightarrow> nat \<Rightarrow> real \<Rightarrow> (real list \<times> real list) \<times> nat" where
  "random_Position_Users rng pos numberUsers radiusUser =
     (let (u1, pos1) = np_random_rand rng pos numberUsers;
          theta_u = map (\<lambda>x. x * (pi * 2)) u1;
          (u2, pos2) = np_random_rand rng pos1 numberUsers;
          rho_u = map (\<lambda>x. sqrt x * radiusUser) u2;
          x_u = map (\<lambda>(rho, th). rho * cos th) (zip rho_u theta_u);
          y_u = map (\<lambda>(rho, th). rho * sin th) (zip rho_u theta_u)
      in ((x_u, y_u), pos2))"

section \<open>The channel model: \<^verbatim>\<open>generate_Channel\<close>\<close>

text \<open>
  The arrays \<^verbatim>\<open>h_n\<close> and \<^verbatim>\<open>distance\<close> of lines 119 and 120 live in the scope around
  the function. One pass of the loop body, lines 157 to 159, for the user \<open>uu\<close>: the
  two normal draws of line 157 come first; then \<^verbatim>\<open>user_X[uu]\<close> and \<^verbatim>\<open>user_Y[uu]\<close> are read, the difference with the UAV's
  arrays is broadcast, and the result is stored into the one element
  \<^verbatim>\<open>distance[uu]\<close>, which numpy accepts only from an array of one element.
\<close>

record channel_arrays =
  h_n :: "real list"
  distance :: "real list"

definition channel_body ::
  "variates \<Rightarrow> real \<Rightarrow> real \<Rightarrow> real list \<Rightarrow> real list \<Rightarrow> real list \<Rightarrow> real list
     \<Rightarrow> nat \<Rightarrow> real \<Rightarrow> nat \<Rightarrow> channel_arrays \<times> nat \<Rightarrow> error + channel_arrays \<times> nat" where
  "channel_body rng s sigma user_X user_Y uav_X uav_Y path_loss uav_Z uu stp =
     (case np_random_normal rng (snd stp) s sigma of
        Inl e \<Rightarrow> Inl e
      | Inr (n_re, pos1) \<Rightarrow>
          (case np_random_normal rng pos1 0 sigma of
             Inl e \<Rightarrow> Inl e
           | Inr (n_im, pos2) \<Rightarrow>
               (let st = fst stp;
                    ch_coeff = csqrt (Complex (n_re ^ 2) (n_im ^ 2))
                in if uu < length user_X \<and> uu < length user_Y
                   then if length uav_X = length uav_Y \<or> length uav_X = 1 \<or> length uav_Y = 1
                     then if uu < length (distance st)
                       then if length uav_X = 1 \<and> length uav_Y = 1
                         then
                           let st1 = st\<lparr>distance := (distance st)
                                   [uu := sqrt ((user_X ! uu - uav_X ! 0) ^ 2
                                                + (user_Y ! uu - uav_Y ! 0) ^ 2 + uav_Z ^ 2)]\<rparr>
                           in if uu < length (h_n st1)
                              then Inr (st1\<lparr>h_n := (h_n st1)
                                   [uu := (cmod (ch_coeff
                                             / Complex (sqrt (1 + (distance st1 ! uu) ^ path_loss)) 0))
                                          ^ 2]\<rparr>,
                                   pos2)
                              else Inl IndexError
                         else Inl ValueError
                       else Inl IndexError
                     else Inl ValueError
                   else Inl IndexError)))"

fun channel_loop ::
  "variates \<Rightarrow> real \<Rightarrow> real \<Rightarrow> real list \<Rightarrow> real list \<Rightarrow> real list \<Rightarrow> real list
     \<Rightarrow> nat \<Rightarrow> real \<Rightarrow> nat list \<Rightarrow> channel_arrays \<times> nat \<Rightarrow> error + channel_arrays \<times> nat" where
  "channel_loop rng s sigma user_X user_Y uav_X uav_Y path_loss uav_Z [] stp = Inr stp"
| "channel_loop rng s sigma user_X user_Y uav_X uav_Y path_loss uav_Z (uu # uus) stp =
     (case channel_body rng s sigma user_X user_Y uav_X uav_Y path_loss uav_Z uu stp of
        Inl e \<Rightarrow> Inl e
      | Inr stp' \<Rightarrow> channel_loop rng s sigma user_X user_Y uav_X uav_Y path_loss uav_Z uus stp')"

text \<open>\<^verbatim>\<open>sorted(h_n, reverse=True)\<close> is the whole array \<^verbatim>\<open>h_n\<close> in descending order.\<close>

definition generate_Channel ::
  "variates \<Rightarrow> nat \<Rightarrow> channel_arrays \<Rightarrow> real \<Rightarrow> real \<Rightarrow> nat \<Rightarrow> real list \<Rightarrow> real list
     \<Rightarrow> real list \<Rightarrow> real list \<Rightarrow> nat \<Rightarrow> real \<Rightarrow> error + real list \<times> channel_arrays \<times> nat" where
  "generate_Channel rng pos st s sigma numberUser user_X user_Y uav_X uav_Y path_loss uav_Z =
     (case channel_loop rng s sigma user_X user_Y uav_X uav_Y path_loss uav_Z
             [0..<numberUser] (st, pos) of
        Inl e \<Rightarrow> Inl e
      | Inr (st', pos') \<Rightarrow> Inr (rev (sort (h_n st')), st', pos'))"

definition np_max :: "real list \<Rightarrow> error + real" where
  "np_max xs = (case xs of [] \<Rightarrow> Inl ValueError | x # ys \<Rightarrow> Inr (fold max ys x))"

definition np_min :: "real list \<Rightarrow> error + real" where
  "np_min xs = (case xs of [] \<Rightarrow> Inl ValueError | x # ys \<Rightarrow> Inr (fold min ys x))"

text \<open>
  Lines 115 to 165 of one trial: the positions, then \<^verbatim>\<open>channelGainPrimary\<close>, the
  maximum of one call of \<^verbatim>\<open>generate_Channel\<close>, and \<^verbatim>\<open>channelGainSecondary\<close>, the
  minimum of another call, which draws its fading coefficients anew. The trial reads
  the module-level \<^verbatim>\<open>s\<close> and \<^verbatim>\<open>sigma\<close>; where line 35 has raised there is no trial.
\<close>

definition trial_gains :: "config \<Rightarrow> variates \<Rightarrow> nat \<Rightarrow> error + (real \<times> real) \<times> nat" where
  "trial_gains cfg rng pos =
     (case rician_s cfg of
        Inl e \<Rightarrow> Inl e
      | Inr s \<Rightarrow>
     (let ((uav_AxisX, uav_AxisY, uav_heigth), pos1) =
            random_Position_UAV rng pos (M_uav cfg) (radius_uav cfg);
          ((user_AxisX, user_AxisY), pos2) =
            random_Position_Users rng pos1 (N_users cfg) (radius_user cfg);
          arrays = \<lparr>h_n = replicate (N_users cfg) 0, distance = replicate (N_users cfg) 0\<rparr>
      in case generate_Channel rng pos2 arrays s (rician_sigma cfg) (N_users cfg)
                user_AxisX user_AxisY uav_AxisX uav_AxisY (path_loss_exp cfg) uav_heigth of
           Inl e \<Rightarrow> Inl e
         | Inr (gains1, arrays1, pos3) \<Rightarrow>
             (case np_max gains1 of
                Inl e \<Rightarrow> Inl e
              | Inr channelGainPrimary \<Rightarrow>
                  (case generate_Channel rng pos3 arrays1 s (rician_sigma cfg)
                          (N_users cfg) user_AxisX user_AxisY uav_AxisX uav_AxisY
                          (path_loss_exp cfg) uav_heigth of
                     Inl e \<Rightarrow> Inl e
                   | Inr (gains2, arrays2, pos4) \<Rightarrow>
                       (case np_min gains2 of
                          Inl e \<Rightarrow> Inl e
                        | Inr channelGainSecondary \<Rightarrow>
                            Inr ((channelGainPrimary, channelGainSecondary), pos4))))))"

section \<open>Outage classification and the trial loop\<close>

text \<open>
  The result matrices of lines 53 to 58, one row per trial and one column per SNR grid
  point (\<^verbatim>\<open>rate_us\<close>, \<^verbatim>\<open>rate_uw\<close> and \<^verbatim>\<open>out_probability\<close> are never used).
\<close>

record results =
  out_probability_system :: "real list list"
  out_probability_secondary_user :: "real list list"
  out_probability_primary_user :: "real list list"
  average_rate :: "real list list"
  instantaneous_rate_secondary :: "real list list"
  instantaneous_rate_primary :: "real list list"

definition init_results :: "config \<Rightarrow> results" where
  "init_results cfg =
     \<lparr>out_probability_system = replicate (N_mc cfg) (replicate (length (snr_dB cfg)) 0),
      out_probability_secondary_user = replicate (N_mc cfg) (replicate (length (snr_dB cfg)) 0),
      out_probability_primary_user = replicate (N_mc cfg) (replicate (length (snr_dB cfg)) 0),
      average_rate = replicate (N_mc cfg) (replicate (length (snr_dB cfg)) 0),
      instantaneous_rate_secondary = replicate (N_mc cfg) (replicate (length (snr_dB cfg)) 0),
      instantaneous_rate_primary = replicate (N_mc cfg) (replicate (length (snr_dB cfg)) 0)\<rparr>"

definition in_matrix :: "real list list \<Rightarrow> nat \<Rightarrow> nat \<Rightarrow> bool" where
  "in_matrix m i j = (i < length m \<and> j < length (m ! i))"

definition matrix_set :: "real list list \<Rightarrow> nat \<Rightarrow> nat \<Rightarrow> real \<Rightarrow> real list list" where
  "matrix_set m i j v = m[i := (m ! i)[j := v]]"

text \<open>
  \<^verbatim>\<open>m[i,:] = row\<close>: the row is copied when the lengths agree, and a row of one element
  is broadcast.
\<close>

definition row_assign :: "real list list \<Rightarrow> nat \<Rightarrow> real list \<Rightarrow> error + real list list" where
  "row_assign m i row =
     (if i < length m
      then if length row = length (m ! i) then Inr (m[i := row])
           else if length row = 1 then Inr (m[i := replicate (length (m ! i)) (row ! 0)])
           else Inl ValueError
      else Inl IndexError)"

text \<open>One pass of the loop body of lines 221 to 241, for the trial \<open>mc\<close> at the index \<open>sn\<close>.\<close>

definition outage_body :: "config \<Rightarrow> nat \<Rightarrow> nat \<Rightarrow> results \<Rightarrow> error + results" where
  "outage_body cfg mc sn res =
     (if in_matrix (instantaneous_rate_primary res) mc sn
         \<and> in_matrix (instantaneous_rate_secondary res) mc sn
         \<and> in_matrix (out_probability_system res) mc sn
         \<and> in_matrix (out_probability_primary_user res) mc sn
         \<and> in_matrix (out_probability_secondary_user res) mc sn
         \<and> in_matrix (average_rate res) mc sn
      then
        let res1 = res\<lparr>out_probability_system := matrix_set (out_probability_system res) mc sn
                     (if instantaneous_rate_primary res ! mc ! sn < target_rate_primary_user cfg
                         \<or> instantaneous_rate_secondary res ! mc ! sn < target_rate_secondary_user cfg
                      then 1 else 0)\<rparr>;
            res2 = res1\<lparr>out_probability_primary_user :=
                     matrix_set (out_probability_primary_user res1) mc sn
                     (if instantaneous_rate_primary res1 ! mc ! sn < target_rate_primary_user cfg
                      then 1 else 0)\<rparr>;
            res3 = res2\<lparr>out_probability_secondary_user :=
                     matrix_set (out_probability_secondary_user res2) mc sn
                     (if instantaneous_rate_secondary res2 ! mc ! sn < target_rate_secondary_user cfg
                      then 1 else 0)\<rparr>
        in Inr (res3\<lparr>average_rate := matrix_set (average_rate res3) mc sn
                     ((instantaneous_rate_primary res3 ! mc ! sn
                       + instantaneous_rate_secondary res3 ! mc ! sn) / 2)\<rparr>)
      else Inl IndexError)"

fun outage_loop :: "config \<Rightarrow> nat \<Rightarrow> nat list \<Rightarrow> results \<Rightarrow> error + results" where
  "outage_loop cfg mc [] res = Inr res"
| "outage_loop cfg mc (sn # sns) res =
     (case outage_body cfg mc sn res of
        Inl e \<Rightarrow> Inl e
      | Inr res' \<Rightarrow> outage_loop cfg mc sns res')"

text \<open>
  Lines 173 to 241 of the trial \<open>mc\<close>, from the two channel gains on: fresh rate
  arrays, the call of line 218 (with \<^verbatim>\<open>snr_dB\<close> as \<^verbatim>\<open>snrValues\<close>), the two row
  assignments and the outage loop.
\<close>

definition trial_rates :: "config \<Rightarrow> nat \<Rightarrow> real \<Rightarrow> real \<Rightarrow> results \<Rightarrow> error + results" where
  "trial_rates cfg mc channelGainPrimary channelGainSecondary res =
     (case calculate_Instantaneous_Rate cfg (init_rate_arrays cfg) channelGainPrimary
             channelGainSecondary (snr_dB cfg) (powerCoeff cfg) (target_rate_primary_user cfg) of
        Inl e \<Rightarrow> Inl e
      | Inr arrays \<Rightarrow>
          (case row_assign (instantaneous_rate_primary res) mc (inst_rate_primary arrays) of
             Inl e \<Rightarrow> Inl e
           | Inr rows_primary \<Rightarrow>
               (case row_assign (instantaneous_rate_secondary res) mc
                       (inst_rate_secondary arrays) of
                  Inl e \<Rightarrow> Inl e
                | Inr rows_secondary \<Rightarrow>
                    outage_loop cfg mc [0..<length (snr_dB cfg)]
                      (res\<lparr>instantaneous_rate_primary := rows_primary,
                           instantaneous_rate_secondary := rows_secondary\<rparr>))))"

text \<open>
  One pass of the loop over the trials (line 62), and the whole script: the module-level
  assignments, of which line 35 can raise, and then the loop.
\<close>

definition trial :: "config \<Rightarrow> variates \<Rightarrow> nat \<Rightarrow> results \<times> nat \<Rightarrow> error + results \<times> nat" where
  "trial cfg rng mc rp =
     (case trial_gains cfg rng (snd rp) of
        Inl e \<Rightarrow> Inl e
      | Inr (gains, pos') \<Rightarrow>
          (case trial_rates cfg mc (fst gains) (snd gains) (fst rp) of
             Inl e \<Rightarrow> Inl e
           | Inr res' \<Rightarrow> Inr (res', pos')))"

fun trials :: "config \<Rightarrow> variates \<Rightarrow> nat list \<Rightarrow> results \<times> nat \<Rightarrow> error + results \<times> nat" where
  "trials cfg rng [] rp = Inr rp"
| "trials cfg rng (mc # mcs) rp =
     (case trial cfg rng mc rp of
        Inl e \<Rightarrow> Inl e
      | Inr rp' \<Rightarrow> trials cfg rng mcs rp')"

definition simulation :: "config \<Rightarrow> variates \<Rightarrow> error + results \<times> nat" where
  "simulation cfg rng =
     (case rician_s cfg of
        Inl e \<Rightarrow> Inl e
      | Inr s \<Rightarrow> trials cfg rng [0..<N_mc cfg] (init_results cfg, 0))"

section \<open>Auxiliary notions for the statements\<close>

text \<open>
  What the loop body of the rate engine leaves at the index \<open>sn\<close> of the four arrays,
  as a function of the grid point \<open>snr_linear[sn]\<close> alone.
\<close>

definition rate_point ::
  "config \<Rightarrow> real \<Rightarrow> real \<Rightarrow> real list \<Rightarrow> real \<Rightarrow> nat \<Rightarrow> rate_arrays \<Rightarrow> bool" where
  "rate_point cfg cp cs pw t sn st =
     (sinr_secondary st ! sn = snr_linear cfg ! sn * cs * pw ! 1
    \<and> inst_rate_secondary st ! sn = ln (1 + snr_linear cfg ! sn * cs * pw ! 1)
    \<and> sinr_primary st ! sn =
          (if ln (1 + snr_linear cfg ! sn * cp * pw ! 0 / (snr_linear cfg ! sn * cs * pw ! 1 + 1)) < t
           then snr_linear cfg ! sn * cp
           else snr_linear cfg ! sn * cp * pw ! 0 / (snr_linear cfg ! sn * cs * pw ! 1 + 1))
    \<and> inst_rate_primary st ! sn =
          (if ln (1 + snr_linear cfg ! sn * cp * pw ! 0 / (snr_linear cfg ! sn * cs * pw ! 1 + 1)) < t
           then 0.5 * ln (1 + snr_linear cfg ! sn * cp)
           else ln (1 + snr_linear cfg ! sn * cp * pw ! 0 / (snr_linear cfg ! sn * cs * pw ! 1 + 1))))"

text \<open>What the loop body of lines 221 to 241 leaves at the trial \<open>mc\<close> and the index \<open>sn\<close>.\<close>

definition outage_point :: "config \<Rightarrow> nat \<Rightarrow> nat \<Rightarrow> results \<Rightarrow> bool" where
  "outage_point cfg mc sn res =
     (out_probability_system res ! mc ! sn =
        (if instantaneous_rate_primary res ! mc ! sn < target_rate_primary_user cfg
            \<or> instantaneous_rate_secondary res ! mc ! sn < target_rate_secondary_user cfg
         then 1 else 0)
    \<and> out_probability_primary_user res ! mc ! sn =
        (if instantaneous_rate_primary res ! mc ! sn < target_rate_primary_user cfg then 1 else 0)
    \<and> out_probability_secondary_user res ! mc ! sn =
        (if instantaneous_rate_secondary res ! mc ! sn < target_rate_secondary_user cfg
         then 1 else 0)
    \<and> average_rate res ! mc ! sn =
        (instantaneous_rate_primary res ! mc ! sn + instantaneous_rate_secondary res ! mc ! sn) / 2)"

text \<open>Two result records agree on the row \<open>i\<close> of every matrix.\<close>

definition same_row :: "nat \<Rightarrow> results \<Rightarrow> results \<Rightarrow> bool" where
  "same_row i res res' =
     (out_probability_system res' ! i = out_probability_system res ! i
    \<and> out_probability_primary_user res' ! i = out_probability_primary_user res ! i
    \<and> out_probability_secondary_user res' ! i = out_probability_secondary_user res ! i
    \<and> average_rate res' ! i = average_rate res ! i
    \<and> instantaneous_rate_primary res' ! i = instantaneous_rate_primary res ! i
    \<and> instantaneous_rate_secondary res' ! i = instantaneous_rate_secondary res ! i)"

text \<open>Every matrix has \<open>n\<close> rows of \<open>k\<close> columns.\<close>

definition shaped :: "nat \<Rightarrow> nat \<Rightarrow> real list list \<Rightarrow> bool" where
  "shaped n k m = (length m = n \<and> list_all (\<lambda>r. length r = k) m)"

definition results_shaped :: "nat \<Rightarrow> nat \<Rightarrow> results \<Rightarrow> bool" where
  "results_shaped n k res =
     (shaped n k (out_probability_system res)
    \<and> shaped n k (out_probability_primary_user res)
    \<and> shaped n k (out_probability_secondary_user res)
    \<and> shaped n k (average_rate res)
    \<and> shaped n k (instantaneous_rate_primary res)
    \<and> shaped n k (instantaneous_rate_secondary res))"

text \<open>
  Closed forms of what one trial computes, read off lines 84 to 165, for the trial whose
  first variate is at the position \<open>pos\<close>: the value of \<^verbatim>\<open>s\<close> where line 35 does not
  raise, the position of the UAV, the position of the user \<open>k\<close>, the channel gain of the
  user \<open>k\<close> in the first (\<open>c = 0\<close>) and in the second (\<open>c = 1\<close>) call of
  \<^verbatim>\<open>generate_Channel\<close>, and the two gains the trial goes on with.
\<close>

definition rician_s_value :: "config \<Rightarrow> real" where
  "rician_s_value cfg = sqrt (K_factor cfg / (K_factor cfg + 1) * P_los cfg)"

definition uav_x :: "config \<Rightarrow> variates \<Rightarrow> nat \<Rightarrow> real" where
  "uav_x cfg rng pos = radius_uav cfg * cos (rng pos * (pi * 2))"

definition uav_y :: "config \<Rightarrow> variates \<Rightarrow> nat \<Rightarrow> real" where
  "uav_y cfg rng pos = radius_uav cfg * sin (rng pos * (pi * 2))"

definition user_x :: "config \<Rightarrow> variates \<Rightarrow> nat \<Rightarrow> nat \<Rightarrow> real" where
  "user_x cfg rng pos k =
     sqrt (rng (pos + 1 + N_users cfg + k)) * radius_user cfg * cos (rng (pos + 1 + k) * (pi * 2))"

definition user_y :: "config \<Rightarrow> variates \<Rightarrow> nat \<Rightarrow> nat \<Rightarrow> real" where
  "user_y cfg rng pos k =
     sqrt (rng (pos + 1 + N_users cfg + k)) * radius_user cfg * sin (rng (pos + 1 + k) * (pi * 2))"

definition user_gain :: "config \<Rightarrow> variates \<Rightarrow> nat \<Rightarrow> nat \<Rightarrow> nat \<Rightarrow> real" where
  "user_gain cfg rng pos c k =
     cmod (Complex
        ((rician_s_value cfg
            + rician_sigma cfg * rng (pos + 1 + 2 * N_users cfg + 2 * N_users cfg * c + 2 * k)) ^ 2)
        ((rician_sigma cfg
            * rng (Suc (pos + 1 + 2 * N_users cfg + 2 * N_users cfg * c + 2 * k))) ^ 2))
     / (1 + (sqrt ((user_x cfg rng pos k - uav_x cfg rng pos) ^ 2
                   + (user_y cfg rng pos k - uav_y cfg rng pos) ^ 2 + 30 ^ 2))
              ^ path_loss_exp cfg)"

definition primary_gain :: "config \<Rightarrow> variates \<Rightarrow> nat \<Rightarrow> real" where
  "primary_gain cfg rng pos = Max ((\<lambda>k. user_gain cfg rng pos 0 k) ` {..<N_users cfg})"

definition secondary_gain :: "config \<Rightarrow> variates \<Rightarrow> nat \<Rightarrow> real" where
  "secondary_gain cfg rng pos = Min ((\<lambda>k. user_gain cfg rng pos 1 k) ` {..<N_users cfg})"

text \<open>Each trial takes \<open>1 + 6 * N_users\<close> variates; the trial \<open>mc\<close> starts here.\<close>

definition trial_start :: "config \<Rightarrow> nat \<Rightarrow> nat" where
  "trial_start cfg mc = mc * (1 + 6 * N_users cfg)"

text \<open>
  What the trial \<open>mc\<close> leaves at the index \<open>sn\<close> when its two channel gains are \<open>gp\<close> and
  \<open>gs\<close>: the two rates, by the formulas of lines 206 to 214 with the configured power
  coefficients and target rate, and the outage entries.
\<close>

definition trial_point_value :: "config \<Rightarrow> real \<Rightarrow> real \<Rightarrow> nat \<Rightarrow> nat \<Rightarrow> results \<Rightarrow> bool" where
  "trial_point_value cfg gp gs mc sn res =
     (instantaneous_rate_primary res ! mc ! sn =
        (if ln (1 + snr_linear cfg ! sn * gp * powerCoeff cfg ! 0
                    / (snr_linear cfg ! sn * gs * powerCoeff cfg ! 1 + 1))
            < target_rate_primary_user cfg
         then 0.5 * ln (1 + snr_linear cfg ! sn * gp)
         else ln (1 + snr_linear cfg ! sn * gp * powerCoeff cfg ! 0
                    / (snr_linear cfg ! sn * gs * powerCoeff cfg ! 1 + 1)))
    \<and> instantaneous_rate_secondary res ! mc ! sn =
        ln (1 + snr_linear cfg ! sn * gs * powerCoeff cfg ! 1)
    \<and> outage_point cfg mc sn res)"

text \<open>The script's parameters with an SNR grid of the single point 10 dB, that is 10.\<close>

definition config_10dB :: config where
  "config_10dB = script_config\<lparr>snr_dB := [10]\<rparr>"

text \<open>
  A sequence of variates given by its first entries (zero afterwards), and the draws of
  one trial used below: uniform draws 0, 0, 0, 1/4, 0 for the angle of the UAV, the
  angles of the two users and their radial coordinates, then standard normal draws
  (-1, 0) and (-1, 0) for the two users in the first call of \<^verbatim>\<open>generate_Channel\<close> and
  (2, 0) and (2, 0) in the second call.
\<close>

definition variates_of :: "real list \<Rightarrow> variates" where
  "variates_of xs k = (if k < length xs then xs ! k else 0)"

definition unordered_draws :: variates where
  "unordered_draws = variates_of [0, 0, 0, 1 / 4, 0, - 1, 0, - 1, 0, 2, 0, 2, 0]"

text \<open>The script's parameters with the 10 dB grid and a single trial.\<close>

definition config_one_trial :: config where
  "config_one_trial = config_10dB\<lparr>N_mc := 1\<rparr>"


text \<open>
  The single-trial parameters with a negative user radius, power coefficients that sum
  to 1.1 and negative target rates.
\<close>

definition invalid_config :: config where
  "invalid_config = config_one_trial
     \<lparr>radius_user := - 2, powerCoeff := [8 / 10, 3 / 10],
      target_rate_primary_user := - 1, target_rate_secondary_user := - 1 / 2\<rparr>"

section \<open>Properties of the rate engine\<close>

lemma rate_body_lengths:
  assumes "rate_body cfg cp cs pw t sn st = Inr st'"
  shows "length (sinr_primary st') = length (sinr_primary st)"
    and "length (sinr_secondary st') = length (sinr_secondary st)"
    and "length (inst_rate_primary st') = length (inst_rate_primary st)"
    and "length (inst_rate_secondary st') = length (inst_rate_secondary st)"
  using assms by (auto simp: rate_body_def Let_def split: if_splits)

lemma rate_body_other:
  assumes "rate_body cfg cp cs pw t sn st = Inr st'" and "i \<noteq> sn"
  shows "sinr_primary st' ! i = sinr_primary st ! i"
    and "sinr_secondary st' ! i = sinr_secondary st ! i"
    and "inst_rate_primary st' ! i = inst_rate_primary st ! i"
    and "inst_rate_secondary st' ! i = inst_rate_secondary st ! i"
  using assms by (auto simp: rate_body_def Let_def split: if_splits)

lemma rate_body_at:
  assumes "rate_body cfg cp cs pw t sn st = Inr st'"
  shows "sinr_secondary st' ! sn = snr_linear cfg ! sn * cs * pw ! 1"
    and "inst_rate_secondary st' ! sn = ln (1 + snr_linear cfg ! sn * cs * pw ! 1)"
    and "sinr_primary st' ! sn =
          (if ln (1 + snr_linear cfg ! sn * cp * pw ! 0 / (snr_linear cfg ! sn * cs * pw ! 1 + 1)) < t
           then snr_linear cfg ! sn * cp
           else snr_linear cfg ! sn * cp * pw ! 0 / (snr_linear cfg ! sn * cs * pw ! 1 + 1))"
    and "inst_rate_primary st' ! sn =
          (if ln (1 + snr_linear cfg ! sn * cp * pw ! 0 / (snr_linear cfg ! sn * cs * pw ! 1 + 1)) < t
           then 0.5 * ln (1 + snr_linear cfg ! sn * cp)
           else ln (1 + snr_linear cfg ! sn * cp * pw ! 0 / (snr_linear cfg ! sn * cs * pw ! 1 + 1)))"
  using assms by (auto simp: rate_body_def Let_def split: if_splits)

lemma rate_body_total:
  assumes "sn < length (snr_linear cfg)" "1 < length pw"
    "sn < length (sinr_primary st)" "sn < length (inst_rate_primary st)"
    "sn < length (sinr_secondary st)" "sn < length (inst_rate_secondary st)"
  shows "\<exists>st'. rate_body cfg cp cs pw t sn st = Inr st'"
  using assms by (simp add: rate_body_def Let_def)

lemma rate_loop_lengths:
  "rate_loop cfg cp cs pw t sns st = Inr st' \<Longrightarrow>
     length (sinr_primary st') = length (sinr_primary st)
   \<and> length (sinr_secondary st') = length (sinr_secondary st)
   \<and> length (inst_rate_primary st') = length (inst_rate_primary st)
   \<and> length (inst_rate_secondary st') = length (inst_rate_secondary st)"
proof (induction sns arbitrary: st)
  case Nil
  then show ?case by simp
next
  case (Cons sn sns)
  then obtain st1 where b: "rate_body cfg cp cs pw t sn st = Inr st1"
    and l: "rate_loop cfg cp cs pw t sns st1 = Inr st'"
    by (auto split: sum.splits)
  from Cons.IH [OF l] rate_body_lengths [OF b] show ?case by simp
qed

lemma rate_loop_other:
  "rate_loop cfg cp cs pw t sns st = Inr st' \<Longrightarrow> i \<notin> set sns \<Longrightarrow>
     sinr_primary st' ! i = sinr_primary st ! i
   \<and> sinr_secondary st' ! i = sinr_secondary st ! i
   \<and> inst_rate_primary st' ! i = inst_rate_primary st ! i
   \<and> inst_rate_secondary st' ! i = inst_rate_secondary st ! i"
proof (induction sns arbitrary: st)
  case Nil
  then show ?case by simp
next
  case (Cons sn sns)
  then obtain st1 where b: "rate_body cfg cp cs pw t sn st = Inr st1"
    and l: "rate_loop cfg cp cs pw t sns st1 = Inr st'"
    by (auto split: sum.splits)
  from Cons.prems have "i \<noteq> sn" "i \<notin> set sns" by auto
  with Cons.IH [OF l] rate_body_other [OF b] show ?case by simp
qed

lemma rate_body_point:
  "rate_body cfg cp cs pw t sn st = Inr st' \<Longrightarrow> rate_point cfg cp cs pw t sn st'"
  unfolding rate_point_def using rate_body_at [of cfg cp cs pw t sn st st'] by simp

lemma rate_loop_point:
  "rate_loop cfg cp cs pw t sns st = Inr st' \<Longrightarrow> distinct sns \<Longrightarrow> sn \<in> set sns \<Longrightarrow>
     rate_point cfg cp cs pw t sn st'"
proof (induction sns arbitrary: st)
  case Nil
  then show ?case by simp
next
  case (Cons a sns)
  then obtain st1 where b: "rate_body cfg cp cs pw t a st = Inr st1"
    and l: "rate_loop cfg cp cs pw t sns st1 = Inr st'"
    by (auto split: sum.splits)
  show ?case
  proof (cases "sn = a")
    case True
    with Cons.prems have "sn \<notin> set sns" by simp
    from rate_loop_other [OF l this] rate_body_point [OF b] True
    show ?thesis by (simp add: rate_point_def)
  next
    case False
    with Cons.prems have "distinct sns" "sn \<in> set sns" by auto
    from Cons.IH [OF l this] show ?thesis .
  qed
qed

lemma rate_loop_total:
  assumes "\<forall>sn \<in> set sns. sn < length (snr_linear cfg) \<and> sn < length (sinr_primary st)
             \<and> sn < length (inst_rate_primary st) \<and> sn < length (sinr_secondary st)
             \<and> sn < length (inst_rate_secondary st)"
    and "1 < length pw"
  shows "\<exists>st'. rate_loop cfg cp cs pw t sns st = Inr st'"
  using assms
proof (induction sns arbitrary: st)
  case Nil
  then show ?case by simp
next
  case (Cons a sns)
  then obtain st1 where b: "rate_body cfg cp cs pw t a st = Inr st1"
    using rate_body_total [of a cfg pw st cp cs t] by auto
  from rate_body_lengths [OF b] Cons.prems
  have "\<exists>st'. rate_loop cfg cp cs pw t sns st1 = Inr st'"
    by (intro Cons.IH) auto
  with b show ?case by simp
qed

lemma calculate_point:
  assumes "calculate_Instantaneous_Rate cfg st cp cs snrValues pw t = Inr st'"
    and "sn < length snrValues"
  shows "rate_point cfg cp cs pw t sn st'"
  using assms rate_loop_point [of cfg cp cs pw t "[0..<length snrValues]" st st' sn]
  by (simp add: calculate_Instantaneous_Rate_def)

lemma calculate_total:
  assumes "length snrValues \<le> length (snr_dB cfg)" and "1 < length pw"
    and "length snrValues \<le> length (sinr_primary st)"
    and "length snrValues \<le> length (inst_rate_primary st)"
    and "length snrValues \<le> length (sinr_secondary st)"
    and "length snrValues \<le> length (inst_rate_secondary st)"
  shows "\<exists>st'. calculate_Instantaneous_Rate cfg st cp cs snrValues pw t = Inr st'"
  unfolding calculate_Instantaneous_Rate_def
  using assms by (intro rate_loop_total) (auto simp: snr_linear_def)

lemma exp_taylor_lower:
  fixes x :: real
  assumes "0 \<le> x"
  shows "(\<Sum>m<n. x ^ m / fact m) \<le> exp x"
proof -
  obtain t where "exp x = (\<Sum>m<n. x ^ m / fact m) + (exp t / fact n) * x ^ n"
    using Maclaurin_exp_le [of x n] by blast
  moreover have "0 \<le> (exp t / fact n) * x ^ n"
    using assms by simp
  ultimately show ?thesis by linarith
qed

lemma exp_taylor_upper:
  fixes x :: real
  assumes "0 \<le> x" and "x ^ n / fact n < 1"
  shows "exp x \<le> (\<Sum>m<n. x ^ m / fact m) / (1 - x ^ n / fact n)"
proof -
  define c where "c = x ^ n / fact n"
  define S where "S = (\<Sum>m<n. x ^ m / fact m)"
  obtain t where t: "\<bar>t\<bar> \<le> \<bar>x\<bar>"
    and e: "exp x = S + (exp t / fact n) * x ^ n"
    unfolding S_def using Maclaurin_exp_le [of x n] by blast
  have c0: "0 \<le> c" unfolding c_def using assms by simp
  from t assms have "exp t \<le> exp x" by simp
  then have "exp t * c \<le> exp x * c"
    using c0 by (rule mult_right_mono)
  moreover have "(exp t / fact n) * x ^ n = exp t * c"
    by (simp add: c_def)
  ultimately have "exp x \<le> S + exp x * c" using e by linarith
  then have "exp x * (1 - c) \<le> S" by (simp add: algebra_simps)
  moreover have "0 < 1 - c" using assms by (simp add: c_def)
  ultimately have "exp x \<le> S / (1 - c)" by (simp add: pos_le_divide_eq)
  then show ?thesis by (simp add: c_def S_def)
qed


lemma ln_13_3_lower: "1.4655 < ln (13 / 3 :: real)"
proof -
  have "exp (1.4655 :: real) \<le> (\<Sum>m<12. 1.4655 ^ m / fact m) / (1 - 1.4655 ^ 12 / fact 12)"
    by (rule exp_taylor_upper) (simp_all add: fact_numeral power_divide)
  also have "\<dots> < 13 / 3"
    by (simp add: lessThan_nat_numeral sum.lessThan_Suc fact_numeral power_divide)
  finally have "exp (1.4655 :: real) < exp (ln (13 / 3))" by simp
  then show ?thesis by (simp only: exp_less_cancel_iff)
qed

lemma ln_13_3_upper: "ln (13 / 3 :: real) < 1.4665"
proof -
  have "(13 / 3 :: real) < (\<Sum>m<12. 1.4665 ^ m / fact m)"
    by (simp add: lessThan_nat_numeral sum.lessThan_Suc fact_numeral power_divide)
  also have "\<dots> \<le> exp 1.4665"
    by (rule exp_taylor_lower) simp
  finally have "exp (ln (13 / 3)) < exp (1.4665 :: real)" by simp
  then show ?thesis by (simp only: exp_less_cancel_iff)
qed


lemma ln_6_5_lower: "0.1815 < ln (6 / 5 :: real)"
proof -
  have "exp (0.1815 :: real) \<le> (\<Sum>m<6. 0.1815 ^ m / fact m) / (1 - 0.1815 ^ 6 / fact 6)"
    by (rule exp_taylor_upper) (simp_all add: fact_numeral power_divide)
  also have "\<dots> < 6 / 5"
    by (simp add: lessThan_nat_numeral fact_numeral power_divide)
  finally have "exp (0.1815 :: real) < exp (ln (6 / 5))" by simp
  then show ?thesis by (simp only: exp_less_cancel_iff)
qed

lemma ln_6_5_upper: "ln (6 / 5 :: real) < 0.1825"
proof -
  have "(6 / 5 :: real) < (\<Sum>m<6. 0.1825 ^ m / fact m)"
    by (simp add: lessThan_nat_numeral fact_numeral power_divide)
  also have "\<dots> \<le> exp 0.1825"
    by (rule exp_taylor_lower) simp
  finally have "exp (ln (6 / 5)) < exp (0.1825 :: real)" by simp
  then show ?thesis by (simp only: exp_less_cancel_iff)
qed

lemma snr_dB_10dB: "snr_dB config_10dB = [10]"
  by (simp add: config_10dB_def)

lemma snr_linear_10dB: "snr_linear config_10dB = [10]"
  by (simp add: snr_linear_def config_10dB_def)

section \<open>Properties of the outage loop and of one trial\<close>

lemma nth_update_if: "xs[i := x] ! j = (if i = j \<and> i < length xs then x else xs ! j)"
  by (cases "i < length xs") (simp_all add: nth_list_update list_update_beyond)

lemma shaped_nth: "shaped n k m \<Longrightarrow> i < n \<Longrightarrow> length (m ! i) = k"
  by (auto simp: shaped_def list_all_length)

lemma shaped_in_matrix: "shaped n k m \<Longrightarrow> i < n \<Longrightarrow> j < k \<Longrightarrow> in_matrix m i j"
  by (auto simp: shaped_def list_all_length in_matrix_def)

lemma shaped_matrix_set: "shaped n k m \<Longrightarrow> shaped n k (matrix_set m i j v)"
  by (auto simp: shaped_def list_all_length matrix_set_def nth_update_if)

lemma shaped_row: "shaped n k m \<Longrightarrow> length r = k \<Longrightarrow> shaped n k (m[i := r])"
  by (auto simp: shaped_def list_all_length nth_update_if)

lemma shaped_replicate: "shaped n k (replicate n (replicate k 0))"
  by (simp add: shaped_def list_all_length)

lemma matrix_set_at: "in_matrix m i j \<Longrightarrow> matrix_set m i j v ! i ! j = v"
  by (simp add: matrix_set_def in_matrix_def)

lemma matrix_set_other_row: "i' \<noteq> i \<Longrightarrow> matrix_set m i j v ! i' = m ! i'"
  by (simp add: matrix_set_def)

lemma matrix_set_other_col: "j' \<noteq> j \<Longrightarrow> matrix_set m i j v ! i ! j' = m ! i ! j'"
  by (simp add: matrix_set_def nth_update_if)

lemma in_matrix_matrix_set: "in_matrix (matrix_set m i j v) i' j' = in_matrix m i' j'"
  by (auto simp: matrix_set_def in_matrix_def nth_update_if)

lemma outage_body_rates:
  assumes "outage_body cfg mc sn res = Inr res'"
  shows "instantaneous_rate_primary res' = instantaneous_rate_primary res"
    and "instantaneous_rate_secondary res' = instantaneous_rate_secondary res"
  using assms by (auto simp: outage_body_def Let_def split: if_splits)

lemma outage_body_point:
  assumes "outage_body cfg mc sn res = Inr res'"
  shows "outage_point cfg mc sn res'"
  using assms
  by (auto simp: outage_body_def outage_point_def Let_def matrix_set_at split: if_splits)

lemma outage_body_other_col:
  assumes "outage_body cfg mc sn res = Inr res'" and "j \<noteq> sn"
  shows "out_probability_system res' ! mc ! j = out_probability_system res ! mc ! j"
    and "out_probability_primary_user res' ! mc ! j = out_probability_primary_user res ! mc ! j"
    and "out_probability_secondary_user res' ! mc ! j = out_probability_secondary_user res ! mc ! j"
    and "average_rate res' ! mc ! j = average_rate res ! mc ! j"
  using assms
  by (auto simp: outage_body_def Let_def matrix_set_other_col split: if_splits)

lemma outage_body_other_row:
  assumes "outage_body cfg mc sn res = Inr res'" and "i \<noteq> mc"
  shows "same_row i res res'"
  using assms
  by (auto simp: outage_body_def same_row_def Let_def matrix_set_other_row split: if_splits)

lemma outage_body_shaped:
  assumes "outage_body cfg mc sn res = Inr res'" and "results_shaped n k res"
  shows "results_shaped n k res'"
  using assms
  by (auto simp: outage_body_def results_shaped_def Let_def shaped_matrix_set split: if_splits)

lemma outage_body_total:
  assumes "results_shaped n k res" and "mc < n" and "sn < k"
  shows "\<exists>res'. outage_body cfg mc sn res = Inr res'"
proof -
  have "in_matrix m mc sn" if "shaped n k m" for m
    using that assms(2,3) by (rule shaped_in_matrix)
  with assms(1) show ?thesis
    by (simp add: outage_body_def results_shaped_def Let_def)
qed


lemma same_row_refl: "same_row i res res"
  by (simp add: same_row_def)

lemma same_row_trans: "same_row i a b \<Longrightarrow> same_row i b c \<Longrightarrow> same_row i a c"
  by (simp add: same_row_def)

lemma outage_point_same_row:
  "same_row mc res res' \<Longrightarrow> outage_point cfg mc sn res \<Longrightarrow> outage_point cfg mc sn res'"
  by (simp add: same_row_def outage_point_def)

lemma outage_loop_rates:
  "outage_loop cfg mc sns res = Inr res' \<Longrightarrow>
     instantaneous_rate_primary res' = instantaneous_rate_primary res
   \<and> instantaneous_rate_secondary res' = instantaneous_rate_secondary res"
proof (induction sns arbitrary: res)
  case Nil
  then show ?case by simp
next
  case (Cons a sns)
  then obtain res1 where b: "outage_body cfg mc a res = Inr res1"
    and l: "outage_loop cfg mc sns res1 = Inr res'"
    by (auto split: sum.splits)
  from Cons.IH [OF l] outage_body_rates [OF b] show ?case by simp
qed

lemma outage_loop_other_row:
  "outage_loop cfg mc sns res = Inr res' \<Longrightarrow> i \<noteq> mc \<Longrightarrow> same_row i res res'"
proof (induction sns arbitrary: res)
  case Nil
  then show ?case by (simp add: same_row_refl)
next
  case (Cons a sns)
  then obtain res1 where b: "outage_body cfg mc a res = Inr res1"
    and l: "outage_loop cfg mc sns res1 = Inr res'"
    by (auto split: sum.splits)
  from Cons.IH [OF l Cons.prems(2)] outage_body_other_row [OF b Cons.prems(2)]
  show ?case by (rule same_row_trans [rotated])
qed

lemma outage_loop_other_col:
  "outage_loop cfg mc sns res = Inr res' \<Longrightarrow> j \<notin> set sns \<Longrightarrow>
     out_probability_system res' ! mc ! j = out_probability_system res ! mc ! j
   \<and> out_probability_primary_user res' ! mc ! j = out_probability_primary_user res ! mc ! j
   \<and> out_probability_secondary_user res' ! mc ! j = out_probability_secondary_user res ! mc ! j
   \<and> average_rate res' ! mc ! j = average_rate res ! mc ! j"
proof (induction sns arbitrary: res)
  case Nil
  then show ?case by simp
next
  case (Cons a sns)
  then obtain res1 where b: "outage_body cfg mc a res = Inr res1"
    and l: "outage_loop cfg mc sns res1 = Inr res'"
    by (auto split: sum.splits)
  from Cons.prems have "j \<noteq> a" "j \<notin> set sns" by auto
  with Cons.IH [OF l] outage_body_other_col [OF b] show ?case by simp
qed

lemma outage_loop_point:
  "outage_loop cfg mc sns res = Inr res' \<Longrightarrow> distinct sns \<Longrightarrow> sn \<in> set sns \<Longrightarrow>
     outage_point cfg mc sn res'"
proof (induction sns arbitrary: res)
  case Nil
  then show ?case by simp
next
  case (Cons a sns)
  then obtain res1 where b: "outage_body cfg mc a res = Inr res1"
    and l: "outage_loop cfg mc sns res1 = Inr res'"
    by (auto split: sum.splits)
  show ?case
  proof (cases "sn = a")
    case True
    with Cons.prems have "sn \<notin> set sns" by simp
    from outage_loop_other_col [OF l this] outage_loop_rates [OF l]
      outage_body_point [OF b] True
    show ?thesis by (simp add: outage_point_def)
  next
    case False
    with Cons.prems have "distinct sns" "sn \<in> set sns" by auto
    from Cons.IH [OF l this] show ?thesis .
  qed
qed

lemma outage_loop_shaped:
  "outage_loop cfg mc sns res = Inr res' \<Longrightarrow> results_shaped n k res \<Longrightarrow>
     results_shaped n k res'"
proof (induction sns arbitrary: res)
  case Nil
  then show ?case by simp
next
  case (Cons a sns)
  then obtain res1 where b: "outage_body cfg mc a res = Inr res1"
    and l: "outage_loop cfg mc sns res1 = Inr res'"
    by (auto split: sum.splits)
  from Cons.IH [OF l outage_body_shaped [OF b Cons.prems(2)]] show ?case .
qed

lemma outage_loop_total:
  assumes "results_shaped n k res" and "mc < n" and "\<forall>sn \<in> set sns. sn < k"
  shows "\<exists>res'. outage_loop cfg mc sns res = Inr res'"
  using assms
proof (induction sns arbitrary: res)
  case Nil
  then show ?case by simp
next
  case (Cons a sns)
  then obtain res1 where b: "outage_body cfg mc a res = Inr res1"
    using outage_body_total [of n k res mc a cfg] by auto
  from outage_body_shaped [OF b Cons.prems(1)] Cons.prems
  have "\<exists>res'. outage_loop cfg mc sns res1 = Inr res'"
    by (intro Cons.IH) auto
  with b show ?case by simp
qed

lemma row_assign_other:
  "row_assign m i row = Inr m' \<Longrightarrow> i' \<noteq> i \<Longrightarrow> m' ! i' = m ! i'"
  by (auto simp: row_assign_def split: if_splits)

lemma row_assign_shaped:
  "shaped n k m \<Longrightarrow> length row = k \<Longrightarrow> i < n \<Longrightarrow> row_assign m i row = Inr (m[i := row])"
  by (auto simp: row_assign_def shaped_def list_all_length)

lemma row_assign_index: "row_assign m i row = Inr m' \<Longrightarrow> i < length m"
  by (auto simp: row_assign_def split: if_splits)

lemma init_rate_arrays_lengths:
  "length (sinr_primary (init_rate_arrays cfg)) = length (snr_dB cfg)"
  "length (sinr_secondary (init_rate_arrays cfg)) = length (snr_dB cfg)"
  "length (inst_rate_primary (init_rate_arrays cfg)) = length (snr_dB cfg)"
  "length (inst_rate_secondary (init_rate_arrays cfg)) = length (snr_dB cfg)"
  by (simp_all add: init_rate_arrays_def)

lemma calculate_lengths:
  assumes "calculate_Instantaneous_Rate cfg st cp cs snrValues pw t = Inr st'"
  shows "length (inst_rate_primary st') = length (inst_rate_primary st)"
    and "length (inst_rate_secondary st') = length (inst_rate_secondary st)"
  using rate_loop_lengths [of cfg cp cs pw t "[0..<length snrValues]" st st'] assms
  by (simp_all add: calculate_Instantaneous_Rate_def)

lemma trial_rates_point:
  assumes "trial_rates cfg mc cp cs res = Inr res'" and "sn < length (snr_dB cfg)"
  shows "outage_point cfg mc sn res'"
proof -
  from assms(1) obtain res0 where
    "outage_loop cfg mc [0..<length (snr_dB cfg)] res0 = Inr res'"
    by (auto simp: trial_rates_def split: sum.splits)
  from outage_loop_point [OF this, of sn] assms(2) show ?thesis by simp
qed

lemma trial_rates_other_row:
  assumes "trial_rates cfg mc cp cs res = Inr res'" and "i \<noteq> mc"
  shows "same_row i res res'"
proof -
  from assms(1) obtain arrays :: rate_arrays and rp rs where
    rp: "row_assign (instantaneous_rate_primary res) mc (inst_rate_primary arrays) = Inr rp"
    and rs: "row_assign (instantaneous_rate_secondary res) mc (inst_rate_secondary arrays) = Inr rs"
    and l: "outage_loop cfg mc [0..<length (snr_dB cfg)]
              (res\<lparr>instantaneous_rate_primary := rp, instantaneous_rate_secondary := rs\<rparr>)
            = Inr res'"
    by (auto simp: trial_rates_def split: sum.splits)
  have "same_row i res (res\<lparr>instantaneous_rate_primary := rp, instantaneous_rate_secondary := rs\<rparr>)"
    using row_assign_other [OF rp assms(2)] row_assign_other [OF rs assms(2)]
    by (simp add: same_row_def)
  from this outage_loop_other_row [OF l assms(2)] show ?thesis
    by (rule same_row_trans)
qed

lemma trial_rates_rows:
  assumes "trial_rates cfg mc cp cs res = Inr res'"
    and "results_shaped n (length (snr_dB cfg)) res"
  shows "\<exists>arrays. calculate_Instantaneous_Rate cfg (init_rate_arrays cfg) cp cs (snr_dB cfg)
             (powerCoeff cfg) (target_rate_primary_user cfg) = Inr arrays
           \<and> mc < n
           \<and> instantaneous_rate_primary res' ! mc = inst_rate_primary arrays
           \<and> instantaneous_rate_secondary res' ! mc = inst_rate_secondary arrays
           \<and> results_shaped n (length (snr_dB cfg)) res'"
proof -
  from assms(1) obtain arrays rp rs where
    c: "calculate_Instantaneous_Rate cfg (init_rate_arrays cfg) cp cs (snr_dB cfg)
             (powerCoeff cfg) (target_rate_primary_user cfg) = Inr arrays"
    and rp: "row_assign (instantaneous_rate_primary res) mc (inst_rate_primary arrays) = Inr rp"
    and rs: "row_assign (instantaneous_rate_secondary res) mc (inst_rate_secondary arrays) = Inr rs"
    and l: "outage_loop cfg mc [0..<length (snr_dB cfg)]
              (res\<lparr>instantaneous_rate_primary := rp, instantaneous_rate_secondary := rs\<rparr>)
            = Inr res'"
    by (auto simp: trial_rates_def split: sum.splits)
  have sp: "shaped n (length (snr_dB cfg)) (instantaneous_rate_primary res)"
    and ss: "shaped n (length (snr_dB cfg)) (instantaneous_rate_secondary res)"
    using assms(2) by (simp_all add: results_shaped_def)
  have mc: "mc < n" using row_assign_index [OF rp] sp by (simp add: shaped_def)
  have lp: "length (inst_rate_primary arrays) = length (snr_dB cfg)"
    and ls: "length (inst_rate_secondary arrays) = length (snr_dB cfg)"
    using calculate_lengths [OF c] by (simp_all add: init_rate_arrays_lengths)
  have rp': "rp = (instantaneous_rate_primary res)[mc := inst_rate_primary arrays]"
    using row_assign_shaped [OF sp lp mc] rp by simp
  have rs': "rs = (instantaneous_rate_secondary res)[mc := inst_rate_secondary arrays]"
    using row_assign_shaped [OF ss ls mc] rs by simp
  have sh: "results_shaped n (length (snr_dB cfg))
              (res\<lparr>instantaneous_rate_primary := rp, instantaneous_rate_secondary := rs\<rparr>)"
    using assms(2) shaped_row [OF sp lp, of mc] shaped_row [OF ss ls, of mc]
    by (simp add: results_shaped_def rp' rs')
  have "instantaneous_rate_primary res' ! mc = inst_rate_primary arrays"
    and "instantaneous_rate_secondary res' ! mc = inst_rate_secondary arrays"
    using outage_loop_rates [OF l] mc sp ss by (simp_all add: rp' rs' shaped_def)
  with c mc outage_loop_shaped [OF l sh] show ?thesis by blast
qed

lemma trial_rates_total:
  assumes "results_shaped n (length (snr_dB cfg)) res" and "mc < n"
    and "1 < length (powerCoeff cfg)"
  shows "\<exists>res'. trial_rates cfg mc cp cs res = Inr res'"
proof -
  obtain arrays where
    c: "calculate_Instantaneous_Rate cfg (init_rate_arrays cfg) cp cs (snr_dB cfg)
             (powerCoeff cfg) (target_rate_primary_user cfg) = Inr arrays"
    using calculate_total [of "snr_dB cfg" cfg "powerCoeff cfg" "init_rate_arrays cfg" cp cs
        "target_rate_primary_user cfg"] assms(3)
    by (auto simp: init_rate_arrays_lengths)
  have sp: "shaped n (length (snr_dB cfg)) (instantaneous_rate_primary res)"
    and ss: "shaped n (length (snr_dB cfg)) (instantaneous_rate_secondary res)"
    using assms(1) by (simp_all add: results_shaped_def)
  have lp: "length (inst_rate_primary arrays) = length (snr_dB cfg)"
    and ls: "length (inst_rate_secondary arrays) = length (snr_dB cfg)"
    using calculate_lengths [OF c] by (simp_all add: init_rate_arrays_lengths)
  have sh: "results_shaped n (length (snr_dB cfg))
              (res\<lparr>instantaneous_rate_primary :=
                      (instantaneous_rate_primary res)[mc := inst_rate_primary arrays],
                   instantaneous_rate_secondary :=
                      (instantaneous_rate_secondary res)[mc := inst_rate_secondary arrays]\<rparr>)"
    using assms(1) shaped_row [OF sp lp, of mc] shaped_row [OF ss ls, of mc]
    by (simp add: results_shaped_def)
  from outage_loop_total [OF sh assms(2), of "[0..<length (snr_dB cfg)]" cfg]
  obtain res' where "outage_loop cfg mc [0..<length (snr_dB cfg)]
              (res\<lparr>instantaneous_rate_primary :=
                      (instantaneous_rate_primary res)[mc := inst_rate_primary arrays],
                   instantaneous_rate_secondary :=
                      (instantaneous_rate_secondary res)[mc := inst_rate_secondary arrays]\<rparr>)
            = Inr res'"
    by auto
  with c row_assign_shaped [OF sp lp assms(2)] row_assign_shaped [OF ss ls assms(2)]
  show ?thesis by (simp add: trial_rates_def)
qed


section \<open>Properties of the channel model, the trials and the whole script\<close>

lemma gain_formula:
  assumes "0 < r"
  shows "(cmod (csqrt z / Complex (sqrt r) 0)) ^ 2 = cmod z / r"
proof -
  have "cmod (Complex (sqrt r) 0) = sqrt r"
    using assms by (simp add: cmod_def)
  then have "cmod (csqrt z / Complex (sqrt r) 0) = sqrt (cmod z) / sqrt r"
    by (simp add: norm_divide)
  then show ?thesis
    using assms by (simp add: power_divide)
qed

lemma channel_body_value:
  assumes "uu < length user_X" "uu < length user_Y"
    "uu < length (distance st)" "uu < length (h_n st)" "0 \<le> sigma"
  shows "channel_body rng s sigma user_X user_Y [vx] [vy] path_loss uav_Z uu (st, pos)
     = Inr (\<lparr>h_n = (h_n st)
               [uu := cmod (Complex ((s + sigma * rng pos) ^ 2) ((sigma * rng (Suc pos)) ^ 2))
                      / (1 + (sqrt ((user_X ! uu - vx) ^ 2 + (user_Y ! uu - vy) ^ 2 + uav_Z ^ 2))
                               ^ path_loss)],
             distance = (distance st)
               [uu := sqrt ((user_X ! uu - vx) ^ 2 + (user_Y ! uu - vy) ^ 2 + uav_Z ^ 2)]\<rparr>,
            pos + 2)"
proof -
  have "0 \<le> (sqrt ((user_X ! uu - vx) ^ 2 + (user_Y ! uu - vy) ^ 2 + uav_Z ^ 2)) ^ path_loss"
    by simp
  then have "0 < 1 + (sqrt ((user_X ! uu - vx) ^ 2 + (user_Y ! uu - vy) ^ 2 + uav_Z ^ 2))
                      ^ path_loss"
    by linarith
  from gain_formula [OF this] assms show ?thesis
    by (simp add: channel_body_def np_random_normal_def Let_def)
qed

lemma channel_body_negative_scale:
  "sigma < 0 \<Longrightarrow>
     channel_body rng s sigma user_X user_Y uav_X uav_Y path_loss uav_Z uu stp = Inl ValueError"
  by (simp add: channel_body_def np_random_normal_def)

text \<open>
  The loop over the users \<open>a\<close> to \<open>b - 1\<close>, started at the variate \<open>q + 2 * a\<close>: it
  leaves the gain of each of these users in \<open>h_n\<close> and keeps the entries before \<open>a\<close>.
\<close>

lemma channel_loop_range:
  assumes "b \<le> length user_X" "b \<le> length user_Y" "b \<le> length (distance st)"
    "b \<le> length (h_n st)" "0 \<le> sigma"
  shows "\<exists>st'. channel_loop rng s sigma user_X user_Y [vx] [vy] path_loss uav_Z [a..<b]
              (st, q + 2 * a) = Inr (st', q + 2 * a + 2 * (b - a))
          \<and> length (h_n st') = length (h_n st) \<and> length (distance st') = length (distance st)
          \<and> (\<forall>k. a \<le> k \<and> k < b \<longrightarrow> h_n st' ! k =
                cmod (Complex ((s + sigma * rng (q + 2 * k)) ^ 2)
                              ((sigma * rng (Suc (q + 2 * k))) ^ 2))
                / (1 + (sqrt ((user_X ! k - vx) ^ 2 + (user_Y ! k - vy) ^ 2 + uav_Z ^ 2))
                         ^ path_loss))
          \<and> (\<forall>k < a. h_n st' ! k = h_n st ! k)"
  using assms
proof (induction "b - a" arbitrary: a st)
  case 0
  then have "[a..<b] = []" by simp
  then show ?case using 0 by simp
next
  case (Suc n)
  then have ab: "a < b" and n: "n = b - Suc a" by linarith+
  then have upt: "[a..<b] = a # [Suc a..<b]" by (simp add: upt_rec)
  define st1 where "st1 = \<lparr>h_n = (h_n st)
               [a := cmod (Complex ((s + sigma * rng (q + 2 * a)) ^ 2)
                                   ((sigma * rng (Suc (q + 2 * a))) ^ 2))
                      / (1 + (sqrt ((user_X ! a - vx) ^ 2 + (user_Y ! a - vy) ^ 2 + uav_Z ^ 2))
                               ^ path_loss)],
             distance = (distance st)
               [a := sqrt ((user_X ! a - vx) ^ 2 + (user_Y ! a - vy) ^ 2 + uav_Z ^ 2)]\<rparr>"
  have body: "channel_body rng s sigma user_X user_Y [vx] [vy] path_loss uav_Z a (st, q + 2 * a)
      = Inr (st1, q + 2 * Suc a)"
    using channel_body_value [of a user_X user_Y st sigma rng s vx vy path_loss uav_Z "q + 2 * a"]
      ab Suc.prems
    by (simp add: st1_def)
  have l1: "length (h_n st1) = length (h_n st)" "length (distance st1) = length (distance st)"
    by (simp_all add: st1_def)
  from Suc.hyps(1) [OF n, of st1] Suc.prems l1
  obtain st' where loop: "channel_loop rng s sigma user_X user_Y [vx] [vy] path_loss uav_Z
        [Suc a..<b] (st1, q + 2 * Suc a) = Inr (st', q + 2 * Suc a + 2 * (b - Suc a))"
    and l': "length (h_n st') = length (h_n st1)" "length (distance st') = length (distance st1)"
    and at: "\<forall>k. Suc a \<le> k \<and> k < b \<longrightarrow> h_n st' ! k =
                cmod (Complex ((s + sigma * rng (q + 2 * k)) ^ 2)
                              ((sigma * rng (Suc (q + 2 * k))) ^ 2))
                / (1 + (sqrt ((user_X ! k - vx) ^ 2 + (user_Y ! k - vy) ^ 2 + uav_Z ^ 2))
                         ^ path_loss)"
    and before: "\<forall>k < Suc a. h_n st' ! k = h_n st1 ! k"
    by auto
  have a_in: "a < length (h_n st)" using ab Suc.prems by linarith
  have here: "h_n st' ! a = cmod (Complex ((s + sigma * rng (q + 2 * a)) ^ 2)
                              ((sigma * rng (Suc (q + 2 * a))) ^ 2))
                / (1 + (sqrt ((user_X ! a - vx) ^ 2 + (user_Y ! a - vy) ^ 2 + uav_Z ^ 2))
                         ^ path_loss)"
    using before a_in by (simp add: st1_def)
  have old: "\<forall>k < a. h_n st' ! k = h_n st ! k"
    using before by (simp add: st1_def)
  have pos: "q + 2 * Suc a + 2 * (b - Suc a) = q + 2 * a + 2 * (b - a)"
    using ab by simp
  have all: "\<forall>k. a \<le> k \<and> k < b \<longrightarrow> h_n st' ! k =
                cmod (Complex ((s + sigma * rng (q + 2 * k)) ^ 2)
                              ((sigma * rng (Suc (q + 2 * k))) ^ 2))
                / (1 + (sqrt ((user_X ! k - vx) ^ 2 + (user_Y ! k - vy) ^ 2 + uav_Z ^ 2))
                         ^ path_loss)"
  proof (intro allI impI)
    fix k assume k: "a \<le> k \<and> k < b"
    show "h_n st' ! k =
                cmod (Complex ((s + sigma * rng (q + 2 * k)) ^ 2)
                              ((sigma * rng (Suc (q + 2 * k))) ^ 2))
                / (1 + (sqrt ((user_X ! k - vx) ^ 2 + (user_Y ! k - vy) ^ 2 + uav_Z ^ 2))
                         ^ path_loss)"
    proof (cases "k = a")
      case True
      then show ?thesis using here by simp
    next
      case False
      with k have "Suc a \<le> k \<and> k < b" by linarith
      with at show ?thesis by blast
    qed
  qed
  from body loop l' l1 all old pos show ?case
    by (simp add: upt)
qed


lemma np_max_value: "xs \<noteq> [] \<Longrightarrow> np_max xs = Inr (Max (set xs))"
  using Max.set_eq_fold [of "hd xs" "tl xs"] by (cases xs) (simp_all add: np_max_def)

lemma np_min_value: "xs \<noteq> [] \<Longrightarrow> np_min xs = Inr (Min (set xs))"
  using Min.set_eq_fold [of "hd xs" "tl xs"] by (cases xs) (simp_all add: np_min_def)

lemma generate_Channel_value:
  assumes "n \<le> length user_X" "n \<le> length user_Y" "n \<le> length (distance st)"
    "length (h_n st) = n" "0 \<le> sigma"
  shows "\<exists>gains st'. generate_Channel rng q st s sigma n user_X user_Y [vx] [vy] path_loss uav_Z
              = Inr (gains, st', q + 2 * n)
          \<and> length (h_n st') = n \<and> length (distance st') = length (distance st)
          \<and> length gains = n
          \<and> set gains = (\<lambda>k. cmod (Complex ((s + sigma * rng (q + 2 * k)) ^ 2)
                              ((sigma * rng (Suc (q + 2 * k))) ^ 2))
                / (1 + (sqrt ((user_X ! k - vx) ^ 2 + (user_Y ! k - vy) ^ 2 + uav_Z ^ 2))
                         ^ path_loss)) ` {..<n}"
proof -
  from channel_loop_range [of n user_X user_Y st sigma rng s vx vy path_loss uav_Z 0 q] assms
  obtain st' where loop: "channel_loop rng s sigma user_X user_Y [vx] [vy] path_loss uav_Z [0..<n]
              (st, q) = Inr (st', q + 2 * n)"
    and l: "length (h_n st') = n" "length (distance st') = length (distance st)"
    and at: "\<forall>k < n. h_n st' ! k =
                cmod (Complex ((s + sigma * rng (q + 2 * k)) ^ 2)
                              ((sigma * rng (Suc (q + 2 * k))) ^ 2))
                / (1 + (sqrt ((user_X ! k - vx) ^ 2 + (user_Y ! k - vy) ^ 2 + uav_Z ^ 2))
                         ^ path_loss)"
    by auto
  have "set (h_n st') = (\<lambda>k. h_n st' ! k) ` {..<n}"
    using l(1) by (auto simp: set_conv_nth)
  also have "\<dots> = (\<lambda>k. cmod (Complex ((s + sigma * rng (q + 2 * k)) ^ 2)
                              ((sigma * rng (Suc (q + 2 * k))) ^ 2))
                / (1 + (sqrt ((user_X ! k - vx) ^ 2 + (user_Y ! k - vy) ^ 2 + uav_Z ^ 2))
                         ^ path_loss)) ` {..<n}"
    using at by (intro image_cong) auto
  finally have "set (rev (sort (h_n st'))) = (\<lambda>k. cmod (Complex ((s + sigma * rng (q + 2 * k)) ^ 2)
                              ((sigma * rng (Suc (q + 2 * k))) ^ 2))
                / (1 + (sqrt ((user_X ! k - vx) ^ 2 + (user_Y ! k - vy) ^ 2 + uav_Z ^ 2))
                         ^ path_loss)) ` {..<n}"
    by simp
  with loop l show ?thesis
    by (simp add: generate_Channel_def)
qed

lemma users_nth:
  assumes "k < numberUsers"
  shows "fst (fst (random_Position_Users rng pos numberUsers radiusUser)) ! k
           = sqrt (rng (pos + numberUsers + k)) * radiusUser * cos (rng (pos + k) * (pi * 2))"
    and "snd (fst (random_Position_Users rng pos numberUsers radiusUser)) ! k
           = sqrt (rng (pos + numberUsers + k)) * radiusUser * sin (rng (pos + k) * (pi * 2))"
  using assms
  by (simp_all add: random_Position_Users_def np_random_rand_def Let_def)

text \<open>The two gains of a trial, in closed form.\<close>

lemma trial_gains_value:
  assumes "M_uav cfg = 1" and "0 < N_users cfg" and "K_factor cfg + 1 \<noteq> 0"
    and "0 \<le> rician_sigma cfg"
  shows "trial_gains cfg rng pos
           = Inr ((primary_gain cfg rng pos, secondary_gain cfg rng pos),
                  pos + 1 + 6 * N_users cfg)"
proof -
  define n where "n = N_users cfg"
  define ux where "ux = fst (fst (random_Position_Users rng (pos + 1) n (radius_user cfg)))"
  define uy where "uy = snd (fst (random_Position_Users rng (pos + 1) n (radius_user cfg)))"
  have s: "rician_s cfg = Inr (rician_s_value cfg)"
    using assms(3) by (simp add: rician_s_def rician_s_value_def)
  have pu: "random_Position_UAV rng pos (M_uav cfg) (radius_uav cfg)
      = (([uav_x cfg rng pos], [uav_y cfg rng pos], 30), pos + 1)"
    using assms(1)
    by (simp add: random_Position_UAV_def np_random_rand_def uav_x_def uav_y_def Let_def)
  have pp: "random_Position_Users rng (pos + 1) n (radius_user cfg) = ((ux, uy), pos + 1 + 2 * n)"
    and lu: "length ux = n" "length uy = n"
    by (simp_all add: ux_def uy_def random_Position_Users_def np_random_rand_def Let_def)
  have ux: "ux ! k = user_x cfg rng pos k" and uy: "uy ! k = user_y cfg rng pos k" if "k < n" for k
    using users_nth [OF that, of rng "pos + 1" "radius_user cfg"]
    by (simp_all add: ux_def uy_def user_x_def user_y_def n_def add.assoc)
  define a0 where "a0 = \<lparr>h_n = replicate n 0, distance = replicate n (0::real)\<rparr>"
  from generate_Channel_value [of n ux uy a0 "rician_sigma cfg" rng "pos + 1 + 2 * n"
      "rician_s_value cfg" "uav_x cfg rng pos" "uav_y cfg rng pos" "path_loss_exp cfg" 30]
    lu assms(4)
  obtain gains1 a1 where g1: "generate_Channel rng (pos + 1 + 2 * n) a0 (rician_s_value cfg)
      (rician_sigma cfg) n ux uy [uav_x cfg rng pos] [uav_y cfg rng pos] (path_loss_exp cfg) 30
      = Inr (gains1, a1, pos + 1 + 2 * n + 2 * n)"
    and l1: "length (h_n a1) = n" "length (distance a1) = n" "length gains1 = n"
    and s1: "set gains1 = (\<lambda>k. cmod (Complex
          ((rician_s_value cfg + rician_sigma cfg * rng (pos + 1 + 2 * n + 2 * k)) ^ 2)
          ((rician_sigma cfg * rng (Suc (pos + 1 + 2 * n + 2 * k))) ^ 2))
        / (1 + (sqrt ((ux ! k - uav_x cfg rng pos) ^ 2 + (uy ! k - uav_y cfg rng pos) ^ 2 + 30 ^ 2))
                 ^ path_loss_exp cfg)) ` {..<n}"
    by (auto simp: a0_def)
  from generate_Channel_value [of n ux uy a1 "rician_sigma cfg" rng "pos + 1 + 2 * n + 2 * n"
      "rician_s_value cfg" "uav_x cfg rng pos" "uav_y cfg rng pos" "path_loss_exp cfg" 30]
    lu l1 assms(4)
  obtain gains2 a2 where g2: "generate_Channel rng (pos + 1 + 2 * n + 2 * n) a1 (rician_s_value cfg)
      (rician_sigma cfg) n ux uy [uav_x cfg rng pos] [uav_y cfg rng pos] (path_loss_exp cfg) 30
      = Inr (gains2, a2, pos + 1 + 2 * n + 2 * n + 2 * n)"
    and l2: "length gains2 = n"
    and s2: "set gains2 = (\<lambda>k. cmod (Complex
          ((rician_s_value cfg + rician_sigma cfg * rng (pos + 1 + 2 * n + 2 * n + 2 * k)) ^ 2)
          ((rician_sigma cfg * rng (Suc (pos + 1 + 2 * n + 2 * n + 2 * k))) ^ 2))
        / (1 + (sqrt ((ux ! k - uav_x cfg rng pos) ^ 2 + (uy ! k - uav_y cfg rng pos) ^ 2 + 30 ^ 2))
                 ^ path_loss_exp cfg)) ` {..<n}"
    by auto
  have m1: "set gains1 = (\<lambda>k. user_gain cfg rng pos 0 k) ` {..<n}"
    unfolding s1 by (intro image_cong) (simp_all add: user_gain_def ux uy n_def)
  have m2: "set gains2 = (\<lambda>k. user_gain cfg rng pos 1 k) ` {..<n}"
    unfolding s2 by (intro image_cong) (simp_all add: user_gain_def ux uy n_def)
  from l1 l2 assms(2) have ne: "gains1 \<noteq> []" "gains2 \<noteq> []" by (auto simp: n_def)
  have p: "np_max gains1 = Inr (primary_gain cfg rng pos)"
    using np_max_value [OF ne(1)] by (simp add: m1 primary_gain_def n_def)
  have q: "np_min gains2 = Inr (secondary_gain cfg rng pos)"
    using np_min_value [OF ne(2)] by (simp add: m2 secondary_gain_def n_def)
  from s pu pp g1 g2 p q show ?thesis
    by (simp add: trial_gains_def a0_def n_def)
qed


lemma trial_gains_total:
  assumes "M_uav cfg = 1" and "0 < N_users cfg" and "K_factor cfg + 1 \<noteq> 0"
    and "0 \<le> rician_sigma cfg"
  shows "\<exists>g. trial_gains cfg rng pos = Inr (g, pos + 1 + 6 * N_users cfg)"
  using trial_gains_value [OF assms] by simp

lemma trial_point:
  assumes "trial cfg rng mc rp = Inr rp'" and "sn < length (snr_dB cfg)"
  shows "outage_point cfg mc sn (fst rp')"
  using assms trial_rates_point
  by (auto simp: trial_def split: sum.splits prod.splits)

lemma trial_other_row:
  assumes "trial cfg rng mc rp = Inr rp'" and "i \<noteq> mc"
  shows "same_row i (fst rp) (fst rp')"
  using assms trial_rates_other_row
  by (auto simp: trial_def split: sum.splits prod.splits)

lemma trial_shaped:
  assumes "trial cfg rng mc rp = Inr rp'" and "results_shaped n (length (snr_dB cfg)) (fst rp)"
  shows "results_shaped n (length (snr_dB cfg)) (fst rp')"
proof -
  from assms(1) obtain p s where "trial_rates cfg mc p s (fst rp) = Inr (fst rp')"
    by (auto simp: trial_def split: sum.splits prod.splits)
  from trial_rates_rows [OF this assms(2)] show ?thesis by blast
qed

lemma trial_point_value_same_row:
  "same_row mc res res' \<Longrightarrow> trial_point_value cfg gp gs mc sn res \<Longrightarrow>
     trial_point_value cfg gp gs mc sn res'"
  by (simp add: same_row_def trial_point_value_def outage_point_def)

text \<open>One trial, from the position of its first variate on.\<close>

lemma trial_value:
  assumes "M_uav cfg = 1" and "0 < N_users cfg" and "K_factor cfg + 1 \<noteq> 0"
    and "0 \<le> rician_sigma cfg" and "1 < length (powerCoeff cfg)"
    and "results_shaped n (length (snr_dB cfg)) res" and "mc < n"
  shows "\<exists>res'. trial cfg rng mc (res, pos) = Inr (res', pos + 1 + 6 * N_users cfg)
          \<and> results_shaped n (length (snr_dB cfg)) res'
          \<and> (\<forall>i. i \<noteq> mc \<longrightarrow> same_row i res res')
          \<and> (\<forall>sn < length (snr_dB cfg).
                trial_point_value cfg (primary_gain cfg rng pos) (secondary_gain cfg rng pos)
                  mc sn res')"
proof -
  have g: "trial_gains cfg rng pos
           = Inr ((primary_gain cfg rng pos, secondary_gain cfg rng pos),
                  pos + 1 + 6 * N_users cfg)"
    using assms(1-4) by (rule trial_gains_value)
  obtain res' where tr: "trial_rates cfg mc (primary_gain cfg rng pos)
      (secondary_gain cfg rng pos) res = Inr res'"
    using trial_rates_total [OF assms(6,7,5)] by blast
  from trial_rates_rows [OF tr assms(6)] obtain arrays where
    c: "calculate_Instantaneous_Rate cfg (init_rate_arrays cfg) (primary_gain cfg rng pos)
          (secondary_gain cfg rng pos) (snr_dB cfg) (powerCoeff cfg)
          (target_rate_primary_user cfg) = Inr arrays"
    and rp: "instantaneous_rate_primary res' ! mc = inst_rate_primary arrays"
    and rs: "instantaneous_rate_secondary res' ! mc = inst_rate_secondary arrays"
    and sh: "results_shaped n (length (snr_dB cfg)) res'"
    by blast
  have "trial_point_value cfg (primary_gain cfg rng pos) (secondary_gain cfg rng pos) mc sn res'"
    if "sn < length (snr_dB cfg)" for sn
    using calculate_point [OF c that] trial_rates_point [OF tr that]
    by (simp add: trial_point_value_def rate_point_def rp rs)
  moreover have "same_row i res res'" if "i \<noteq> mc" for i
    using trial_rates_other_row [OF tr that] .
  ultimately show ?thesis
    using g tr sh by (simp add: trial_def)
qed

lemma trial_total:
  assumes "M_uav cfg = 1" and "0 < N_users cfg" and "K_factor cfg + 1 \<noteq> 0"
    and "0 \<le> rician_sigma cfg" and "1 < length (powerCoeff cfg)"
    and "results_shaped n (length (snr_dB cfg)) (fst rp)" and "mc < n"
  shows "\<exists>rp'. trial cfg rng mc rp = Inr rp'"
  using trial_value [OF assms, of rng "snd rp"] by auto

lemma trials_other_row:
  "trials cfg rng mcs rp = Inr rp' \<Longrightarrow> i \<notin> set mcs \<Longrightarrow> same_row i (fst rp) (fst rp')"
proof (induction mcs arbitrary: rp)
  case Nil
  then show ?case by (simp add: same_row_refl)
next
  case (Cons a mcs)
  then obtain rp1 where b: "trial cfg rng a rp = Inr rp1"
    and l: "trials cfg rng mcs rp1 = Inr rp'"
    by (auto split: sum.splits)
  from Cons.prems have "i \<noteq> a" "i \<notin> set mcs" by auto
  from trial_other_row [OF b this(1)] Cons.IH [OF l this(2)]
  show ?case by (rule same_row_trans)
qed

lemma trials_point:
  "trials cfg rng mcs rp = Inr rp' \<Longrightarrow> distinct mcs \<Longrightarrow> mc \<in> set mcs \<Longrightarrow>
     sn < length (snr_dB cfg) \<Longrightarrow> outage_point cfg mc sn (fst rp')"
proof (induction mcs arbitrary: rp)
  case Nil
  then show ?case by simp
next
  case (Cons a mcs)
  then obtain rp1 where b: "trial cfg rng a rp = Inr rp1"
    and l: "trials cfg rng mcs rp1 = Inr rp'"
    by (auto split: sum.splits)
  show ?case
  proof (cases "mc = a")
    case True
    with Cons.prems have "mc \<notin> set mcs" by simp
    from trials_other_row [OF l this] trial_point [OF b Cons.prems(4)] True
    show ?thesis by (simp add: outage_point_same_row)
  next
    case False
    with Cons.prems have "distinct mcs" "mc \<in> set mcs" by auto
    from Cons.IH [OF l this Cons.prems(4)] show ?thesis .
  qed
qed

lemma trial_start_Suc: "trial_start cfg (Suc mc) = trial_start cfg mc + 1 + 6 * N_users cfg"
  by (simp add: trial_start_def)

text \<open>
  The trials \<open>a\<close> to \<open>b - 1\<close>, started where the trial \<open>a\<close> starts: each leaves its row as
  \<open>trial_point_value\<close> says, with the gains drawn at its own position.
\<close>

lemma trials_range:
  assumes "M_uav cfg = 1" and "0 < N_users cfg" and "K_factor cfg + 1 \<noteq> 0"
    and "0 \<le> rician_sigma cfg" and "1 < length (powerCoeff cfg)"
    and "results_shaped n (length (snr_dB cfg)) res" and "b \<le> n" and "a \<le> b"
  shows "\<exists>res'. trials cfg rng [a..<b] (res, trial_start cfg a) = Inr (res', trial_start cfg b)
          \<and> results_shaped n (length (snr_dB cfg)) res'
          \<and> (\<forall>i < a. same_row i res res')
          \<and> (\<forall>mc. a \<le> mc \<and> mc < b \<longrightarrow> (\<forall>sn < length (snr_dB cfg).
                trial_point_value cfg (primary_gain cfg rng (trial_start cfg mc))
                  (secondary_gain cfg rng (trial_start cfg mc)) mc sn res'))"
  using assms(6,8)
proof (induction "b - a" arbitrary: a res)
  case 0
  then have "a = b" by simp
  then show ?case using 0 by (auto simp: same_row_refl)
next
  case (Suc m)
  then have ab: "a < b" and m: "m = b - Suc a" by linarith+
  then have upt: "[a..<b] = a # [Suc a..<b]" by (simp add: upt_rec)
  have an: "a < n" using ab assms(7) by linarith
  from trial_value [OF assms(1-5) Suc.prems(1) an, of rng "trial_start cfg a"]
  obtain res1 where t1: "trial cfg rng a (res, trial_start cfg a)
        = Inr (res1, trial_start cfg (Suc a))"
    and sh1: "results_shaped n (length (snr_dB cfg)) res1"
    and o1: "\<forall>i. i \<noteq> a \<longrightarrow> same_row i res res1"
    and v1: "\<forall>sn < length (snr_dB cfg).
                trial_point_value cfg (primary_gain cfg rng (trial_start cfg a))
                  (secondary_gain cfg rng (trial_start cfg a)) a sn res1"
    by (auto simp: trial_start_Suc)
  have sab: "Suc a \<le> b" using ab by simp
  from Suc.hyps(1) [OF m sh1 sab]
  obtain res' where t': "trials cfg rng [Suc a..<b] (res1, trial_start cfg (Suc a))
        = Inr (res', trial_start cfg b)"
    and sh': "results_shaped n (length (snr_dB cfg)) res'"
    and o': "\<forall>i < Suc a. same_row i res1 res'"
    and v': "\<forall>mc. Suc a \<le> mc \<and> mc < b \<longrightarrow> (\<forall>sn < length (snr_dB cfg).
                trial_point_value cfg (primary_gain cfg rng (trial_start cfg mc))
                  (secondary_gain cfg rng (trial_start cfg mc)) mc sn res')"
    by blast
  have old: "\<forall>i < a. same_row i res res'"
  proof (intro allI impI)
    fix i assume "i < a"
    then have "same_row i res res1" "same_row i res1 res'" using o1 o' by auto
    then show "same_row i res res'" by (rule same_row_trans)
  qed
  have all: "\<forall>mc. a \<le> mc \<and> mc < b \<longrightarrow> (\<forall>sn < length (snr_dB cfg).
                trial_point_value cfg (primary_gain cfg rng (trial_start cfg mc))
                  (secondary_gain cfg rng (trial_start cfg mc)) mc sn res')"
  proof (intro allI impI)
    fix mc sn assume mc: "a \<le> mc \<and> mc < b" and sn: "sn < length (snr_dB cfg)"
    show "trial_point_value cfg (primary_gain cfg rng (trial_start cfg mc))
                  (secondary_gain cfg rng (trial_start cfg mc)) mc sn res'"
    proof (cases "mc = a")
      case True
      have "same_row a res1 res'" using o' by simp
      from trial_point_value_same_row [OF this] v1 sn True show ?thesis by simp
    next
      case False
      with mc have "Suc a \<le> mc \<and> mc < b" by linarith
      with v' sn show ?thesis by blast
    qed
  qed
  from t1 t' sh' old all show ?case by (simp add: upt)
qed

lemma init_results_shaped: "results_shaped (N_mc cfg) (length (snr_dB cfg)) (init_results cfg)"
  by (simp add: results_shaped_def init_results_def shaped_replicate)

lemma simulation_point:
  assumes "simulation cfg rng = Inr rp" and "mc < N_mc cfg" and "sn < length (snr_dB cfg)"
  shows "outage_point cfg mc sn (fst rp)"
proof -
  from assms(1) have "trials cfg rng [0..<N_mc cfg] (init_results cfg, 0) = Inr rp"
    by (auto simp: simulation_def split: sum.splits)
  from trials_point [OF this, of mc sn] assms(2,3) show ?thesis by simp
qed

text \<open>The whole script, for parameters with which lines 35 and 157 do not raise.\<close>

lemma simulation_value:
  assumes "M_uav cfg = 1" and "0 < N_users cfg" and "K_factor cfg + 1 \<noteq> 0"
    and "0 \<le> rician_sigma cfg" and "1 < length (powerCoeff cfg)"
  shows "\<exists>res. simulation cfg rng = Inr (res, trial_start cfg (N_mc cfg))
          \<and> (\<forall>mc < N_mc cfg. \<forall>sn < length (snr_dB cfg).
                trial_point_value cfg (primary_gain cfg rng (trial_start cfg mc))
                  (secondary_gain cfg rng (trial_start cfg mc)) mc sn res)"
proof -
  have s: "rician_s cfg = Inr (rician_s_value cfg)"
    using assms(3) by (simp add: rician_s_def rician_s_value_def)
  from trials_range [OF assms init_results_shaped, of "N_mc cfg" 0 rng]
  show ?thesis by (auto simp: simulation_def s trial_start_def)
qed

lemma simulation_total:
  assumes "M_uav cfg = 1" and "0 < N_users cfg" and "K_factor cfg + 1 \<noteq> 0"
    and "0 \<le> rician_sigma cfg" and "1 < length (powerCoeff cfg)"
  shows "\<exists>rp. simulation cfg rng = Inr rp"
  using simulation_value [OF assms, of rng] by blast

text \<open>The two error paths of the parameters: a negative scale, and \<open>K + 1 = 0\<close>.\<close>

lemma trial_gains_negative_scale:
  assumes "K_factor cfg + 1 \<noteq> 0" and "rician_sigma cfg < 0" and "0 < N_users cfg"
  shows "trial_gains cfg rng pos = Inl ValueError"
proof -
  have s: "rician_s cfg = Inr (rician_s_value cfg)"
    using assms(1) by (simp add: rician_s_def rician_s_value_def)
  have upt: "[0..<N_users cfg] = 0 # [Suc 0..<N_users cfg]"
    using assms(3) by (simp add: upt_rec)
  have "generate_Channel rng q st (rician_s_value cfg) (rician_sigma cfg) (N_users cfg)
      ux uy vx vy pl z = Inl ValueError" for q st ux uy vx vy pl z
    using assms(2) by (simp add: generate_Channel_def upt channel_body_negative_scale)
  then show ?thesis
    by (simp add: trial_gains_def s Let_def split: prod.splits)
qed

lemma simulation_negative_scale:
  assumes "K_factor cfg + 1 \<noteq> 0" and "rician_sigma cfg < 0" and "0 < N_users cfg"
    and "0 < N_mc cfg"
  shows "simulation cfg rng = Inl ValueError"
proof -
  have s: "rician_s cfg = Inr (rician_s_value cfg)"
    using assms(1) by (simp add: rician_s_def rician_s_value_def)
  have upt: "[0..<N_mc cfg] = 0 # [Suc 0..<N_mc cfg]"
    using assms(4) by (simp add: upt_rec)
  show ?thesis
    by (simp add: simulation_def s upt trial_def trial_gains_negative_scale [OF assms(1-3)])
qed

lemma simulation_zero_division:
  "K_factor cfg = - 1 \<Longrightarrow> simulation cfg rng = Inl ZeroDivisionError"
  by (simp add: simulation_def rician_s_def)


section \<open>One trial evaluated\<close>

lemma script_rician:
  assumes "P_los cfg = 1" and "K_factor cfg = 8"
  shows "rician_s cfg = Inr (2 * sqrt 2 / 3)" and "rician_sigma cfg = sqrt 2 / 6"
proof -
  have "sqrt (8 / 9 :: real) = sqrt (2 ^ 2 * 2) / sqrt (3 ^ 2)"
    by (simp add: real_sqrt_divide)
  also have "\<dots> = 2 * sqrt 2 / 3"
    by (simp only: real_sqrt_mult real_sqrt_abs abs_numeral)
  finally show "rician_s cfg = Inr (2 * sqrt 2 / 3)"
    using assms by (simp add: rician_s_def)
  have "sqrt (18 :: real) = sqrt (3 ^ 2 * 2)" by simp
  also have "\<dots> = 3 * sqrt 2"
    by (simp only: real_sqrt_mult real_sqrt_abs abs_numeral)
  finally have "sqrt (18 :: real) = 3 * sqrt 2" .
  moreover have "1 / (3 * sqrt 2) = sqrt 2 / (6 :: real)"
    by (simp add: field_simps)
  ultimately show "rician_sigma cfg = sqrt 2 / 6"
    using assms by (simp add: rician_sigma_def)
qed

lemmas draws_at = unordered_draws_def variates_of_def

lemma uav_eval: "random_Position_UAV unordered_draws 0 (Suc 0) 1 = (([1], [0], 30), Suc 0)"
  by (simp add: random_Position_UAV_def np_random_rand_def draws_at Let_def)

lemma upt_1_3: "[1..<3] = [1, 2]" "[3..<5] = [3, 4]"
  by (simp_all add: upt_rec)

lemma users_eval: "random_Position_Users unordered_draws (Suc 0) 2 2 = (([1, 0], [0, 0]), 5)"
proof -
  have "sqrt (1 / 4 :: real) = 1 / 2"
    by (rule real_sqrt_unique) (simp_all add: power2_eq_square)
  then show ?thesis
    by (simp add: random_Position_Users_def np_random_rand_def draws_at upt_1_3 Let_def)
qed


lemma sqrt_pow4: "sqrt (x ^ 4) = x ^ 2"
proof -
  have "x ^ 4 = (x ^ 2) ^ 2" by simp
  then show ?thesis by (simp only: real_sqrt_abs abs_power2)
qed

lemma first_call_eval:
  "generate_Channel unordered_draws 5 \<lparr>h_n = [0, 0], distance = [0, 0]\<rparr>
      (2 * sqrt 2 / 3) (sqrt 2 / 6) 2 [1, 0] [0, 0] [1] [0] 2 30
   = Inr ([1 / 1802, 1 / 1804], \<lparr>h_n = [1 / 1802, 1 / 1804], distance = [30, sqrt 901]\<rparr>, 9)"
proof -
  have a: "(2 * sqrt 2 / 3 + sqrt 2 / 6 * - 1) ^ 2 = (1 / 2 :: real)"
    by (simp add: power2_eq_square field_simps)
  have b: "sqrt (900 :: real) = 30"
    by (rule real_sqrt_unique) simp_all
  have c: "[0..<2] = [0, Suc 0]" by (simp add: upt_rec)
  show ?thesis
    using a b
    by (simp add: generate_Channel_def c channel_body_value draws_at cmod_def sqrt_pow4)
qed


lemma second_call_eval:
  "generate_Channel unordered_draws 9 \<lparr>h_n = [1 / 1802, 1 / 1804], distance = [30, sqrt 901]\<rparr>
      (2 * sqrt 2 / 3) (sqrt 2 / 6) 2 [1, 0] [0, 0] [1] [0] 2 30
   = Inr ([2 / 901, 1 / 451], \<lparr>h_n = [2 / 901, 1 / 451], distance = [30, sqrt 901]\<rparr>, 13)"
proof -
  have a: "(2 * sqrt 2 / 3 + sqrt 2 / 6 * 2) ^ 2 = (2 :: real)"
    by (simp add: power2_eq_square field_simps)
  have b: "sqrt (900 :: real) = 30"
    by (rule real_sqrt_unique) simp_all
  have c: "[0..<2] = [0, Suc 0]" by (simp add: upt_rec)
  show ?thesis
    using a b
    by (simp add: generate_Channel_def c channel_body_value draws_at cmod_def sqrt_pow4)
qed

lemma trial_gains_eval:
  assumes "M_uav cfg = 1" "N_users cfg = 2" "radius_uav cfg = 1" "radius_user cfg = 2"
    "path_loss_exp cfg = 2" "P_los cfg = 1" "K_factor cfg = 8"
  shows "trial_gains cfg unordered_draws 0 = Inr ((1 / 1802, 1 / 451), 13)"
proof -
  have r: "replicate 2 (0 :: real) = [0, 0]" by (simp add: numeral_2_eq_2)
  note rs = script_rician [OF assms(6,7)]
  show ?thesis
    unfolding trial_gains_def assms(1-5) rs
    by (simp add: uav_eval users_eval r first_call_eval second_call_eval
        np_max_def np_min_def)
qed

lemma one_trial_fields:
  "N_mc config_one_trial = 1" "snr_dB config_one_trial = [10]"
  "snr_linear config_one_trial = [10]" "powerCoeff config_one_trial = [8 / 10, 2 / 10]"
  "target_rate_primary_user config_one_trial = 1"
  "target_rate_secondary_user config_one_trial = 1 / 2"
  by (simp_all add: config_one_trial_def config_10dB_def script_config_def snr_linear_def)

lemma one_trial_gains:
  "trial_gains config_one_trial unordered_draws 0 = Inr ((1 / 1802, 1 / 451), 13)"
  by (rule trial_gains_eval)
    (simp_all add: config_one_trial_def config_10dB_def script_config_def)

lemma ln_below:
  "ln (409957 / 408153 :: real) < 1" "ln (906 / 901 :: real) < 2" "ln (453 / 451 :: real) < 1 / 2"
proof -
  have "ln (409957 / 408153 :: real) \<le> 409957 / 408153 - 1"
    by (rule ln_le_minus_one) simp
  then show "ln (409957 / 408153 :: real) < 1" by linarith
  have "ln (906 / 901 :: real) \<le> 906 / 901 - 1"
    by (rule ln_le_minus_one) simp
  then show "ln (906 / 901 :: real) < 2" by linarith
  have "ln (453 / 451 :: real) \<le> 453 / 451 - 1"
    by (rule ln_le_minus_one) simp
  then show "ln (453 / 451 :: real) < 1 / 2" by linarith
qed

lemma one_trial_rates:
  "calculate_Instantaneous_Rate config_one_trial (init_rate_arrays config_one_trial)
      (1 / 1802) (1 / 451) [10 :: int] [4 / 5, 1 / 5] 1
   = Inr \<lparr>sinr_primary = [5 / 901], sinr_secondary = [2 / 451],
          inst_rate_primary = [ln (906 / 901) / 2], inst_rate_secondary = [ln (453 / 451)]\<rparr>"
  using ln_below
  by (simp add: calculate_Instantaneous_Rate_def rate_body_def one_trial_fields
      init_rate_arrays_def Let_def)

lemma one_trial_rician: "rician_s config_one_trial = Inr (2 * sqrt 2 / 3)"
  by (rule script_rician) (simp_all add: config_one_trial_def config_10dB_def script_config_def)

lemma one_trial_simulation:
  "simulation config_one_trial unordered_draws
   = Inr (\<lparr>out_probability_system = [[1]], out_probability_secondary_user = [[1]],
           out_probability_primary_user = [[1]],
           average_rate = [[(ln (906 / 901) / 2 + ln (453 / 451)) / 2]],
           instantaneous_rate_secondary = [[ln (453 / 451)]],
           instantaneous_rate_primary = [[ln (906 / 901) / 2]]\<rparr>, 13)"
  using ln_below
  by (simp add: simulation_def one_trial_rician trial_def one_trial_gains trial_rates_def
      one_trial_rates one_trial_fields init_results_def row_assign_def outage_body_def in_matrix_def
      matrix_set_def Let_def)

section \<open>Bounds on \<open>e\<close> and monotonicity of the rate formulas\<close>



















section \<open>User positions, and one trial under the invalid parameters\<close>

lemma invalid_fields:
  "N_mc invalid_config = 1" "snr_dB invalid_config = [10]"
  "snr_linear invalid_config = [10]" "powerCoeff invalid_config = [8 / 10, 3 / 10]"
  "target_rate_primary_user invalid_config = - 1"
  "target_rate_secondary_user invalid_config = - 1 / 2"
  "M_uav invalid_config = 1" "N_users invalid_config = 2" "radius_uav invalid_config = 1"
  "radius_user invalid_config = - 2" "path_loss_exp invalid_config = 2"
  "P_los invalid_config = 1" "K_factor invalid_config = 8"
  by (simp_all add: invalid_config_def config_one_trial_def config_10dB_def script_config_def
      snr_linear_def)

lemma invalid_users_eval:
  "random_Position_Users unordered_draws (Suc 0) 2 (- 2) = (([- 1, 0], [0, 0]), 5)"
proof -
  have "sqrt (1 / 4 :: real) = 1 / 2"
    by (rule real_sqrt_unique) (simp_all add: power2_eq_square)
  then show ?thesis
    by (simp add: random_Position_Users_def np_random_rand_def draws_at upt_1_3 Let_def)
qed

lemma invalid_first_call:
  "generate_Channel unordered_draws 5 \<lparr>h_n = [0, 0], distance = [0, 0]\<rparr>
      (2 * sqrt 2 / 3) (sqrt 2 / 6) 2 [- 1, 0] [0, 0] [1] [0] 2 30
   = Inr ([1 / 1804, 1 / 1810],
          \<lparr>h_n = [1 / 1810, 1 / 1804], distance = [sqrt 904, sqrt 901]\<rparr>, 9)"
proof -
  have a: "(2 * sqrt 2 / 3 + sqrt 2 / 6 * - 1) ^ 2 = (1 / 2 :: real)"
    by (simp add: power2_eq_square field_simps)
  have c: "[0..<2] = [0, Suc 0]" by (simp add: upt_rec)
  show ?thesis
    using a
    by (simp add: generate_Channel_def c channel_body_value draws_at cmod_def sqrt_pow4)
qed

lemma invalid_second_call:
  "generate_Channel unordered_draws 9
      \<lparr>h_n = [1 / 1810, 1 / 1804], distance = [sqrt 904, sqrt 901]\<rparr>
      (2 * sqrt 2 / 3) (sqrt 2 / 6) 2 [- 1, 0] [0, 0] [1] [0] 2 30
   = Inr ([1 / 451, 2 / 905],
          \<lparr>h_n = [2 / 905, 1 / 451], distance = [sqrt 904, sqrt 901]\<rparr>, 13)"
proof -
  have a: "(2 * sqrt 2 / 3 + sqrt 2 / 6 * 2) ^ 2 = (2 :: real)"
    by (simp add: power2_eq_square field_simps)
  have c: "[0..<2] = [0, Suc 0]" by (simp add: upt_rec)
  show ?thesis
    using a
    by (simp add: generate_Channel_def c channel_body_value draws_at cmod_def sqrt_pow4)
qed

lemma invalid_gains:
  "trial_gains invalid_config unordered_draws 0 = Inr ((1 / 1804, 2 / 905), 13)"
proof -
  have r: "replicate 2 (0 :: real) = [0, 0]" by (simp add: numeral_2_eq_2)
  note rs = script_rician [OF invalid_fields(12,13)]
  show ?thesis
    unfolding trial_gains_def invalid_fields(7-11) rs
    by (simp add: uav_eval invalid_users_eval r invalid_first_call invalid_second_call
        np_max_def np_min_def)
qed

lemma ln_nonneg_facts:
  "\<not> ln (412671 / 410861 :: real) < - 1" "\<not> ln (911 / 905 :: real) < - 1 / 2"
proof -
  have "0 \<le> ln (412671 / 410861 :: real)" by (rule ln_ge_zero) simp
  then show "\<not> ln (412671 / 410861 :: real) < - 1" by linarith
  have "0 \<le> ln (911 / 905 :: real)" by (rule ln_ge_zero) simp
  then show "\<not> ln (911 / 905 :: real) < - 1 / 2" by linarith
qed

lemma invalid_rates:
  "calculate_Instantaneous_Rate invalid_config (init_rate_arrays invalid_config)
      (1 / 1804) (2 / 905) [10 :: int] [4 / 5, 3 / 10] (- 1)
   = Inr \<lparr>sinr_primary = [1810 / 410861], sinr_secondary = [6 / 905],
          inst_rate_primary = [ln (412671 / 410861)], inst_rate_secondary = [ln (911 / 905)]\<rparr>"
  using ln_nonneg_facts
  by (simp add: calculate_Instantaneous_Rate_def rate_body_def invalid_fields
      init_rate_arrays_def Let_def)

lemma invalid_simulation:
  "simulation invalid_config unordered_draws
   = Inr (\<lparr>out_probability_system = [[0]], out_probability_secondary_user = [[0]],
           out_probability_primary_user = [[0]],
           average_rate = [[(ln (412671 / 410861) + ln (911 / 905)) / 2]],
           instantaneous_rate_secondary = [[ln (911 / 905)]],
           instantaneous_rate_primary = [[ln (412671 / 410861)]]\<rparr>, 13)"
  using ln_nonneg_facts
  by (simp add: simulation_def script_rician [OF invalid_fields(12,13)] trial_def invalid_gains
      trial_rates_def invalid_rates invalid_fields init_results_def row_assign_def outage_body_def in_matrix_def
      matrix_set_def Let_def)

section \<open>The claims about the rate engine\<close>

text \<open>
  Claim C3. At every SNR grid point \<open>sn\<close> the rate engine returns, for the primary user,
  the OMA rate \<open>0.5 * ln (1 + \<gamma> * gain_primary)\<close> when the NOMA rate
  \<open>ln (1 + \<gamma> * gain_primary * \<alpha>_primary / (\<gamma> * gain_secondary * \<alpha>_secondary + 1))\<close> is
  below the target rate, and the NOMA rate otherwise. The right-hand side reads the grid
  only at \<open>sn\<close>: the decision at one grid point does not depend on any other point.
\<close>

theorem C3_fallback:
  assumes "calculate_Instantaneous_Rate cfg st channelPri channelSec snrValues power_coeff
             target_RatePri = Inr st'"
    and "sn < length snrValues"
  shows "inst_rate_primary st' ! sn =
          (if ln (1 + snr_linear cfg ! sn * channelPri * power_coeff ! 0
                      / (snr_linear cfg ! sn * channelSec * power_coeff ! 1 + 1)) < target_RatePri
           then 0.5 * ln (1 + snr_linear cfg ! sn * channelPri)
           else ln (1 + snr_linear cfg ! sn * channelPri * power_coeff ! 0
                      / (snr_linear cfg ! sn * channelSec * power_coeff ! 1 + 1)))"
  using calculate_point [OF assms] by (simp add: rate_point_def)

lemma ln_small: "ln (1009 / 1001 :: real) < 1"
proof -
  have "ln (1009 / 1001 :: real) \<le> 1009 / 1001 - 1"
    by (rule ln_le_minus_one) simp
  then show ?thesis by linarith
qed

text \<open>
  An instance of C3 on the 10 dB grid: the gains 1/1000 and 1/2000 give a NOMA rate of
  \<open>ln (1009 / 1001)\<close>, below the target 1, and the engine returns the OMA rate.
\<close>

theorem C3_witness:
  "calculate_Instantaneous_Rate config_10dB (init_rate_arrays config_10dB) (1 / 1000) (1 / 2000)
      [10 :: int] [8 / 10, 2 / 10] 1
    = Inr \<lparr>sinr_primary = [1 / 100], sinr_secondary = [1 / 1000],
           inst_rate_primary = [0.5 * ln (101 / 100)], inst_rate_secondary = [ln (1001 / 1000)]\<rparr>
   \<and> ln (1 + 10 * (1 / 1000) * (8 / 10) / (10 * (1 / 2000) * (2 / 10) + 1)) < (1 :: real)
   \<and> [0.5 * ln (101 / 100 :: real)] ! 0 = 0.5 * ln (1 + 10 * (1 / 1000))"
proof -
  have ev: "calculate_Instantaneous_Rate config_10dB (init_rate_arrays config_10dB) (1 / 1000)
      (1 / 2000) [10 :: int] [8 / 10, 2 / 10] 1
    = Inr \<lparr>sinr_primary = [1 / 100], sinr_secondary = [1 / 1000],
           inst_rate_primary = [0.5 * ln (101 / 100)], inst_rate_secondary = [ln (1001 / 1000)]\<rparr>"
    using ln_small
    by (simp add: calculate_Instantaneous_Rate_def rate_body_def snr_linear_10dB
        init_rate_arrays_def snr_dB_10dB Let_def)
  from C3_fallback [OF ev, of 0] ln_small ev show ?thesis
    by (simp add: snr_linear_10dB)
qed


text \<open>
  Claim C5. At every SNR grid point the secondary user's SINR is
  \<open>\<gamma> * gain_secondary * \<alpha>_secondary\<close> and the rate is \<open>ln (1 + \<gamma> * gain_secondary * \<alpha>_secondary)\<close>,
  whatever the gains and whether or not the primary user fell back to OMA: the secondary
  user has no fallback.
\<close>

theorem C5_secondary_noma_only:
  assumes "calculate_Instantaneous_Rate cfg st channelPri channelSec snrValues power_coeff
             target_RatePri = Inr st'"
    and "sn < length snrValues"
  shows "sinr_secondary st' ! sn = snr_linear cfg ! sn * channelSec * power_coeff ! 1
       \<and> inst_rate_secondary st' ! sn
           = ln (1 + snr_linear cfg ! sn * channelSec * power_coeff ! 1)"
  using calculate_point [OF assms] by (simp add: rate_point_def)

text \<open>
  An instance of C5 on the 10 dB grid, at gains for which the primary user falls back to
  OMA: the secondary rate is the NOMA rate all the same.
\<close>

theorem C5_witness:
  "calculate_Instantaneous_Rate config_10dB (init_rate_arrays config_10dB) (1 / 1000) (1 / 2000)
      [10 :: int] [8 / 10, 2 / 10] 1
    = Inr \<lparr>sinr_primary = [1 / 100], sinr_secondary = [1 / 1000],
           inst_rate_primary = [0.5 * ln (101 / 100)], inst_rate_secondary = [ln (1001 / 1000)]\<rparr>
   \<and> [1 / 1000 :: real] ! 0 = 10 * (1 / 2000) * (2 / 10)
   \<and> [ln (1001 / 1000 :: real)] ! 0 = ln (1 + 10 * (1 / 2000) * (2 / 10))"
proof -
  have ev: "calculate_Instantaneous_Rate config_10dB (init_rate_arrays config_10dB) (1 / 1000)
      (1 / 2000) [10 :: int] [8 / 10, 2 / 10] 1
    = Inr \<lparr>sinr_primary = [1 / 100], sinr_secondary = [1 / 1000],
           inst_rate_primary = [0.5 * ln (101 / 100)], inst_rate_secondary = [ln (1001 / 1000)]\<rparr>"
    using ln_small
    by (simp add: calculate_Instantaneous_Rate_def rate_body_def snr_linear_10dB
        init_rate_arrays_def snr_dB_10dB Let_def)
  from C5_secondary_noma_only [OF ev, of 0] ev show ?thesis
    by (simp add: snr_linear_10dB)
qed

text \<open>
  Claim C9. The result of the rate engine depends on the argument \<open>snrValues\<close> through
  its length only: two arguments of equal length give the same result, the other
  arguments and the module-level \<^verbatim>\<open>snr_linear\<close> being the same. In particular the
  call of line 218, which passes \<^verbatim>\<open>snr_dB\<close>, returns what a call with \<^verbatim>\<open>snr_linear\<close>
  returns.
\<close>

theorem C9_snrValues_length_only:
  fixes snrValues1 :: "'a list" and snrValues2 :: "'b list"
  assumes "length snrValues1 = length snrValues2"
  shows "calculate_Instantaneous_Rate cfg st channelPri channelSec snrValues1 power_coeff
           target_RatePri
         = calculate_Instantaneous_Rate cfg st channelPri channelSec snrValues2 power_coeff
             target_RatePri
       \<and> calculate_Instantaneous_Rate cfg st channelPri channelSec (snr_dB cfg) power_coeff
             target_RatePri
         = calculate_Instantaneous_Rate cfg st channelPri channelSec (snr_linear cfg) power_coeff
             target_RatePri"
  using assms by (simp add: calculate_Instantaneous_Rate_def snr_linear_def)

text \<open>An instance of C9: an integer array and a float array, one element each.\<close>

theorem C9_witness:
  "length [10 :: int] = length [7 / 2 :: real]
   \<and> calculate_Instantaneous_Rate config_10dB (init_rate_arrays config_10dB) (1 / 1000) (1 / 2000)
        [10 :: int] [8 / 10, 2 / 10] 1
     = calculate_Instantaneous_Rate config_10dB (init_rate_arrays config_10dB) (1 / 1000) (1 / 2000)
        [7 / 2 :: real] [8 / 10, 2 / 10] 1"
  using C9_snrValues_length_only [of "[10 :: int]" "[7 / 2 :: real]" config_10dB
      "init_rate_arrays config_10dB" "1 / 1000" "1 / 2000" "[8 / 10, 2 / 10]" 1]
  by simp

text \<open>
  Claim C4. With the gains 0.5 and 0.1, the power split (0.8, 0.2), the SNR 10 and the
  target rate 1, the engine keeps the NOMA branch: the primary SINR is
  \<open>10 * 0.5 * 0.8 / (10 * 0.1 * 0.2 + 1) = 4 / 1.2\<close>, the primary rate is
  \<open>ln (1 + 4 / 1.2)\<close>, which is at least 1 and is 1.466 to three decimals, the secondary
  SINR is \<open>10 * 0.1 * 0.2 = 0.2\<close> and the secondary rate is \<open>ln 1.2\<close>, 0.182 to three
  decimals.
\<close>

theorem C4_concrete_scenario:
  "calculate_Instantaneous_Rate config_10dB (init_rate_arrays config_10dB) (5 / 10) (1 / 10)
      (snr_dB config_10dB) [8 / 10, 2 / 10] 1
    = Inr \<lparr>sinr_primary = [4 / (12 / 10)], sinr_secondary = [2 / 10],
           inst_rate_primary = [ln (1 + 4 / (12 / 10))], inst_rate_secondary = [ln (12 / 10)]\<rparr>
   \<and> snr_linear config_10dB = [10]
   \<and> 10 * (5 / 10) * (8 / 10) / (10 * (1 / 10) * (2 / 10) + 1) = (4 / (12 / 10) :: real)
   \<and> (1 :: real) \<le> ln (1 + 4 / (12 / 10))
   \<and> \<bar>ln (1 + 4 / (12 / 10)) - 1.466\<bar> < (0.0005 :: real)
   \<and> 10 * (1 / 10) * (2 / 10) = (2 / 10 :: real)
   \<and> \<bar>ln (12 / 10) - 0.182\<bar> < (0.0005 :: real)"
proof -
  have lo: "2931 / 2000 < ln (13 / 3 :: real)" using ln_13_3_lower by simp
  have hi: "ln (13 / 3 :: real) < 2933 / 2000" using ln_13_3_upper by simp
  have lo': "363 / 2000 < ln (6 / 5 :: real)" using ln_6_5_lower by simp
  have hi': "ln (6 / 5 :: real) < 365 / 2000" using ln_6_5_upper by simp
  have a: "(1 :: real) \<le> ln (13 / 3)"
    using lo by linarith
  have "\<bar>ln (13 / 3) - 733 / 500\<bar> < (1 / 2000 :: real)"
    using lo hi by linarith
  then have b: "\<bar>ln (13 / 3) - 1.466\<bar> < (0.0005 :: real)"
    by simp
  have "\<bar>ln (6 / 5) - 91 / 500\<bar> < (1 / 2000 :: real)"
    using lo' hi' by linarith
  then have c: "\<bar>ln (6 / 5) - 0.182\<bar> < (0.0005 :: real)"
    by simp
  have ev: "calculate_Instantaneous_Rate config_10dB (init_rate_arrays config_10dB) (5 / 10)
      (1 / 10) (snr_dB config_10dB) [8 / 10, 2 / 10] 1
    = Inr \<lparr>sinr_primary = [4 / (12 / 10)], sinr_secondary = [2 / 10],
           inst_rate_primary = [ln (1 + 4 / (12 / 10))], inst_rate_secondary = [ln (12 / 10)]\<rparr>"
    using a
    by (simp add: calculate_Instantaneous_Rate_def rate_body_def snr_linear_10dB
        init_rate_arrays_def snr_dB_10dB Let_def)
  show ?thesis using ev a b c by (simp add: snr_linear_10dB)
qed








text \<open>
  Claim C10. The OMA fallback does not guarantee the primary target rate: with the
  script's parameters, the gains 1/1000 and 1/2000 and the first grid point (10 dB, that
  is 10), the NOMA rate is below the target 1, the engine returns the OMA rate
  \<open>0.5 * ln (1 + 10 * (1 / 1000))\<close>, which is below the target too, and the primary outage
  indicator of that trial and grid point is 1.
\<close>

theorem C10_fallback_can_miss_target:
  "\<exists>res'. trial_rates script_config 0 (1 / 1000) (1 / 2000) (init_results script_config) = Inr res'
     \<and> snr_linear script_config ! 0 = 10
     \<and> ln (1 + 10 * (1 / 1000) * powerCoeff script_config ! 0
               / (10 * (1 / 2000) * powerCoeff script_config ! 1 + 1))
        < target_rate_primary_user script_config
     \<and> instantaneous_rate_primary res' ! 0 ! 0 = 0.5 * ln (1 + 10 * (1 / 1000))
     \<and> instantaneous_rate_primary res' ! 0 ! 0 < target_rate_primary_user script_config
     \<and> out_probability_primary_user res' ! 0 ! 0 = 1"
proof -
  have sh: "results_shaped (N_mc script_config) (length (snr_dB script_config))
      (init_results script_config)"
    by (rule init_results_shaped)
  have f: "0 < N_mc script_config" "1 < length (powerCoeff script_config)"
    "0 < length (snr_dB script_config)"
    "powerCoeff script_config = [8 / 10, 2 / 10]" "target_rate_primary_user script_config = 1"
    by (simp_all add: script_config_def)
  have g: "snr_linear script_config ! 0 = 10"
    by (simp add: snr_linear_def script_config_def)
  obtain res' where tr: "trial_rates script_config 0 (1 / 1000) (1 / 2000)
      (init_results script_config) = Inr res'"
    using trial_rates_total [OF sh f(1,2)] by blast
  from trial_rates_rows [OF tr sh] obtain arrays where
    c: "calculate_Instantaneous_Rate script_config (init_rate_arrays script_config) (1 / 1000)
          (1 / 2000) (snr_dB script_config) (powerCoeff script_config)
          (target_rate_primary_user script_config) = Inr arrays"
    and rows: "instantaneous_rate_primary res' ! 0 = inst_rate_primary arrays"
    by blast
  have noma: "ln (1 + 10 * (1 / 1000) * powerCoeff script_config ! 0
               / (10 * (1 / 2000) * powerCoeff script_config ! 1 + 1))
        < target_rate_primary_user script_config"
    using ln_small by (simp add: f)
  have rate: "instantaneous_rate_primary res' ! 0 ! 0 = 0.5 * ln (1 + 10 * (1 / 1000))"
    using calculate_point [OF c f(3)] noma by (simp add: rate_point_def rows g)
  have "ln (101 / 100 :: real) \<le> 101 / 100 - 1"
    by (rule ln_le_minus_one) simp
  then have below: "instantaneous_rate_primary res' ! 0 ! 0 < target_rate_primary_user script_config"
    by (simp add: rate f)
  have "out_probability_primary_user res' ! 0 ! 0 = 1"
    using trial_rates_point [OF tr f(3)] below by (simp add: outage_point_def)
  with tr g noma rate below show ?thesis by blast
qed


section \<open>The claims about the channel gains and the outage indicators\<close>

text \<open>
  Claim C1 says that in every trial the primary gain is at least the secondary gain.
  The script takes the primary gain from one call of \<^verbatim>\<open>generate_Channel\<close> and the
  secondary gain from a second call, which draws new fading coefficients (lines 164 and
  165), so the order can fail. With the script's parameters and the draws
  \<open>unordered_draws\<close> the first call gives the gains 1/1802 and 1/1804, the second call
  gives 2/901 and 1/451, and the trial continues with the primary gain 1/1802 and the
  secondary gain 1/451.
\<close>

theorem C1_gain_order_broken:
  "trial_gains script_config unordered_draws 0 = Inr ((1 / 1802, 1 / 451), 13)
   \<and> (1 / 1802 :: real) < 1 / 451"
  using trial_gains_eval [of script_config] by (simp add: script_config_def)


text \<open>
  Claim C6. When the script has run, for every trial \<open>mc\<close> and every SNR grid index
  \<open>sn\<close> the system outage indicator is 1 if the primary rate of that trial and grid point
  is below the primary target rate or the secondary rate is below the secondary target
  rate, and 0 otherwise.
\<close>

theorem C6_system_outage:
  assumes "simulation cfg rng = Inr (res, pos)" and "mc < N_mc cfg"
    and "sn < length (snr_dB cfg)"
  shows "out_probability_system res ! mc ! sn =
           (if instantaneous_rate_primary res ! mc ! sn < target_rate_primary_user cfg
               \<or> instantaneous_rate_secondary res ! mc ! sn < target_rate_secondary_user cfg
            then 1 else 0)"
  using simulation_point [OF assms] by (simp add: outage_point_def)


text \<open>
  An instance of C6: the script with a single trial, the 10 dB grid and the draws
  \<open>unordered_draws\<close>, evaluated in full. Both rates are below their targets and the
  indicator is 1.
\<close>

theorem C6_witness:
  "simulation config_one_trial unordered_draws
   = Inr (\<lparr>out_probability_system = [[1]], out_probability_secondary_user = [[1]],
           out_probability_primary_user = [[1]],
           average_rate = [[(ln (906 / 901) / 2 + ln (453 / 451)) / 2]],
           instantaneous_rate_secondary = [[ln (453 / 451)]],
           instantaneous_rate_primary = [[ln (906 / 901) / 2]]\<rparr>, 13)
   \<and> (0 :: nat) < N_mc config_one_trial \<and> 0 < length (snr_dB config_one_trial)
   \<and> [[1 :: real]] ! 0 ! 0
       = (if [[ln (906 / 901) / 2 :: real]] ! 0 ! 0 < target_rate_primary_user config_one_trial
             \<or> [[ln (453 / 451) :: real]] ! 0 ! 0 < target_rate_secondary_user config_one_trial
          then 1 else 0)"
  using C6_system_outage [OF one_trial_simulation, of 0 0] one_trial_simulation
  by (simp add: one_trial_fields)


section \<open>The claims about the user positions and the parameters\<close>

text \<open>
  Claim C7. For the user \<open>k\<close> of a sample, let \<open>V\<close> and \<open>U\<close> be the two draws of
  \<^verbatim>\<open>np.random.rand\<close> the function uses for that user, both in \<open>[0,1)\<close>. The angle is
  \<open>V * 2 * pi\<close>, which lies in \<open>[0, 2 * pi)\<close> and is a linear image of \<open>V\<close>; the radial
  coordinate is \<open>radiusUser * sqrt U\<close>, which is the distance of the position from the
  centre and is less than \<open>radiusUser\<close>. The position lies in the sector of radius \<open>r\<close>
  and angle \<open>phi\<close> of the disc exactly when \<open>U \<le> r\<^sup>2 / radiusUser\<^sup>2\<close> and
  \<open>V \<le> phi / (2 * pi)\<close>, a rectangle of the unit square whose area is the area of the
  sector, \<open>phi * r\<^sup>2 / 2\<close>, divided by the area of the disc: with \<open>U\<close> and \<open>V\<close> uniform
  the position is uniform by area. (That the draws are uniform is a property of numpy's
  generator and is the hypothesis here, not a statement of the theorem.)
\<close>

theorem C7_user_positions:
  fixes rng :: variates and pos k numberUsers :: nat and radiusUser r phi :: real
  defines "V \<equiv> rng (pos + k)" and "U \<equiv> rng (pos + numberUsers + k)"
    and "x \<equiv> fst (fst (random_Position_Users rng pos numberUsers radiusUser)) ! k"
    and "y \<equiv> snd (fst (random_Position_Users rng pos numberUsers radiusUser)) ! k"
  assumes k: "k < numberUsers" and R: "0 < radiusUser"
    and V: "0 \<le> V" "V < 1" and U: "0 \<le> U" "U < 1" and r: "0 \<le> r"
  shows "x = radiusUser * sqrt U * cos (V * (pi * 2))
       \<and> y = radiusUser * sqrt U * sin (V * (pi * 2))
       \<and> 0 \<le> V * (pi * 2) \<and> V * (pi * 2) < 2 * pi
       \<and> sqrt (x ^ 2 + y ^ 2) = radiusUser * sqrt U
       \<and> radiusUser * sqrt U < radiusUser
       \<and> ((radiusUser * sqrt U \<le> r \<and> V * (pi * 2) \<le> phi)
            \<longleftrightarrow> (U \<le> r ^ 2 / radiusUser ^ 2 \<and> V \<le> phi / (2 * pi)))
       \<and> (r ^ 2 / radiusUser ^ 2) * (phi / (2 * pi)) = (phi * r ^ 2 / 2) / (pi * radiusUser ^ 2)"
proof -
  have x: "x = radiusUser * sqrt U * cos (V * (pi * 2))"
    and y: "y = radiusUser * sqrt U * sin (V * (pi * 2))"
    using users_nth [OF k, of rng pos radiusUser] by (simp_all add: x_def y_def U_def V_def)
  have ang: "0 \<le> V * (pi * 2)" "V * (pi * 2) < 2 * pi"
    using V by simp_all
  have "x ^ 2 + y ^ 2 = (radiusUser * sqrt U) ^ 2 * (cos (V * (pi * 2))) ^ 2
      + (radiusUser * sqrt U) ^ 2 * (sin (V * (pi * 2))) ^ 2"
    by (simp only: x y power_mult_distrib)
  also have "\<dots> = (radiusUser * sqrt U) ^ 2
      * ((cos (V * (pi * 2))) ^ 2 + (sin (V * (pi * 2))) ^ 2)"
    by (simp only: distrib_left)
  also have "\<dots> = (radiusUser * sqrt U) ^ 2"
    by (simp only: sin_cos_squared_add2 mult_1_right)
  finally have "sqrt (x ^ 2 + y ^ 2) = \<bar>radiusUser * sqrt U\<bar>"
    by (simp only: real_sqrt_abs)
  then have rho: "sqrt (x ^ 2 + y ^ 2) = radiusUser * sqrt U"
    using R U by simp
  have "sqrt U < 1" using U by simp
  then have inside: "radiusUser * sqrt U < radiusUser"
    using R by simp
  have "radiusUser * sqrt U \<le> r \<longleftrightarrow> sqrt U \<le> r / radiusUser"
    using R by (simp add: pos_le_divide_eq mult.commute)
  also have "\<dots> \<longleftrightarrow> sqrt U \<le> sqrt ((r / radiusUser) ^ 2)"
    using R r by simp
  also have "\<dots> \<longleftrightarrow> U \<le> (r / radiusUser) ^ 2"
    by (simp only: real_sqrt_le_iff)
  finally have rad: "radiusUser * sqrt U \<le> r \<longleftrightarrow> U \<le> r ^ 2 / radiusUser ^ 2"
    by (simp add: power_divide)
  have angle: "V * (pi * 2) \<le> phi \<longleftrightarrow> V \<le> phi / (2 * pi)"
    by (simp add: pos_le_divide_eq mult.commute)
  have area: "(r ^ 2 / radiusUser ^ 2) * (phi / (2 * pi)) = (phi * r ^ 2 / 2) / (pi * radiusUser ^ 2)"
    by (simp add: mult.commute mult.left_commute)
  from x y ang rho inside rad angle area show ?thesis by simp
qed



text \<open>
  An instance of C7: the first user of the draws \<open>unordered_draws\<close>, with \<open>V = 0\<close> and
  \<open>U = 1/4\<close> in a cell of radius 2, is at the distance 1 from the centre, one quarter of
  the disc's area away from it.
\<close>

theorem C7_witness:
  "(0 :: nat) < 2 \<and> (0 :: real) < 2
   \<and> 0 \<le> unordered_draws (1 + 0) \<and> unordered_draws (1 + 0) < 1
   \<and> 0 \<le> unordered_draws (1 + 2 + 0) \<and> unordered_draws (1 + 2 + 0) < 1
   \<and> random_Position_Users unordered_draws 1 2 2 = (([1, 0], [0, 0]), 5)
   \<and> (1 :: real) = 2 * sqrt (1 / 4) * cos (0 * (pi * 2))
   \<and> (0 :: real) = 2 * sqrt (1 / 4) * sin (0 * (pi * 2))
   \<and> sqrt (1 ^ 2 + 0 ^ 2) = 2 * sqrt (1 / 4 :: real)
   \<and> 2 * sqrt (1 / 4) \<le> (1 :: real) \<and> (1 / 4 :: real) \<le> 1 ^ 2 / 2 ^ 2"
proof -
  have s: "sqrt (1 / 4 :: real) = 1 / 2"
    by (rule real_sqrt_unique) (simp_all add: power2_eq_square)
  have d: "unordered_draws (1 + 0) = 0" "unordered_draws (1 + 2 + 0) = 1 / 4"
    by (simp_all add: draws_at)
  have u: "random_Position_Users unordered_draws 1 2 2 = (([1, 0], [0, 0]), 5)"
    using users_eval by simp
  from C7_user_positions [where k = 0 and numberUsers = 2 and radiusUser = 2
      and rng = unordered_draws and pos = 1 and r = 1 and phi = pi] d s u
  show ?thesis by simp
qed


text \<open>
  Claim C8 says that an invalid configuration makes the program fail at once with a
  validation error. The script has no validation: its parameters are plain assignments
  (lines 24 to 47) and are used as they are. With a negative user radius, power
  coefficients that sum to 1.1 and negative target rates the script runs its trial and
  fills the result matrices.
\<close>

theorem C8_counterexample:
  "radius_user invalid_config < 0
   \<and> powerCoeff invalid_config ! 0 + powerCoeff invalid_config ! 1 \<noteq> 1
   \<and> target_rate_primary_user invalid_config < 0
   \<and> target_rate_secondary_user invalid_config < 0
   \<and> simulation invalid_config unordered_draws
     = Inr (\<lparr>out_probability_system = [[0]], out_probability_secondary_user = [[0]],
             out_probability_primary_user = [[0]],
             average_rate = [[(ln (412671 / 410861) + ln (911 / 905)) / 2]],
             instantaneous_rate_secondary = [[ln (911 / 905)]],
             instantaneous_rate_primary = [[ln (412671 / 410861)]]\<rparr>, 13)"
  using invalid_simulation by (simp add: invalid_fields)

text \<open>
  Claim C8, amended. Take any SNR grid in dB (the linear values \<open>10 powr (dB / 10)\<close> are
  positive by construction), any radii and any target rates, negative ones included,
  and non-negative power coefficients with any sum; let the other parameters be valid:
  one UAV, at least one user, \<open>K \<ge> 0\<close> and \<open>P_los \<ge> 0\<close>. Then the script raises no
  validation error and no other error: it runs all its trials. It clamps no value: in
  every trial \<open>mc\<close> and at every grid index \<open>sn\<close> the two rates are the formulas of
  lines 206 to 214 applied to the configured power coefficients and target rate, the
  outage entries are those of lines 221 to 241 with the configured target rates, and the
  two gains of the trial are the closed forms \<open>primary_gain\<close> and \<open>secondary_gain\<close>, in
  which the positions are scaled by the configured radii (\<open>user_x\<close>, \<open>user_y\<close>, \<open>uav_x\<close>,
  \<open>uav_y\<close>).
\<close>

theorem C8_values_used_as_given:
  assumes "M_uav cfg = 1" and "0 < N_users cfg" and "0 \<le> K_factor cfg" and "0 \<le> P_los cfg"
    and "1 < length (powerCoeff cfg)" and "0 \<le> powerCoeff cfg ! 0" and "0 \<le> powerCoeff cfg ! 1"
  shows "\<exists>res. simulation cfg rng = Inr (res, trial_start cfg (N_mc cfg))
     \<and> (\<forall>mc < N_mc cfg. \<forall>sn < length (snr_dB cfg).
          instantaneous_rate_primary res ! mc ! sn =
            (if ln (1 + snr_linear cfg ! sn * primary_gain cfg rng (trial_start cfg mc)
                          * powerCoeff cfg ! 0
                        / (snr_linear cfg ! sn * secondary_gain cfg rng (trial_start cfg mc)
                             * powerCoeff cfg ! 1 + 1))
                < target_rate_primary_user cfg
             then 0.5 * ln (1 + snr_linear cfg ! sn * primary_gain cfg rng (trial_start cfg mc))
             else ln (1 + snr_linear cfg ! sn * primary_gain cfg rng (trial_start cfg mc)
                          * powerCoeff cfg ! 0
                        / (snr_linear cfg ! sn * secondary_gain cfg rng (trial_start cfg mc)
                             * powerCoeff cfg ! 1 + 1)))
        \<and> instantaneous_rate_secondary res ! mc ! sn =
            ln (1 + snr_linear cfg ! sn * secondary_gain cfg rng (trial_start cfg mc)
                      * powerCoeff cfg ! 1)
        \<and> out_probability_system res ! mc ! sn =
            (if instantaneous_rate_primary res ! mc ! sn < target_rate_primary_user cfg
                \<or> instantaneous_rate_secondary res ! mc ! sn < target_rate_secondary_user cfg
             then 1 else 0)
        \<and> out_probability_primary_user res ! mc ! sn =
            (if instantaneous_rate_primary res ! mc ! sn < target_rate_primary_user cfg
             then 1 else 0)
        \<and> out_probability_secondary_user res ! mc ! sn =
            (if instantaneous_rate_secondary res ! mc ! sn < target_rate_secondary_user cfg
             then 1 else 0)
        \<and> average_rate res ! mc ! sn =
            (instantaneous_rate_primary res ! mc ! sn
             + instantaneous_rate_secondary res ! mc ! sn) / 2)"
proof -
  have k: "K_factor cfg + 1 \<noteq> 0" using assms(3) by linarith
  have "0 \<le> sqrt (2 * (K_factor cfg + 1))" using assms(3) by simp
  then have sg: "0 \<le> rician_sigma cfg"
    using assms(4) by (simp add: rician_sigma_def)
  from simulation_value [OF assms(1,2) k sg assms(5), of rng]
  obtain res where run: "simulation cfg rng = Inr (res, trial_start cfg (N_mc cfg))"
    and v: "\<forall>mc < N_mc cfg. \<forall>sn < length (snr_dB cfg).
                trial_point_value cfg (primary_gain cfg rng (trial_start cfg mc))
                  (secondary_gain cfg rng (trial_start cfg mc)) mc sn res"
    by blast
  from v have "\<forall>mc < N_mc cfg. \<forall>sn < length (snr_dB cfg).
          instantaneous_rate_primary res ! mc ! sn =
            (if ln (1 + snr_linear cfg ! sn * primary_gain cfg rng (trial_start cfg mc)
                          * powerCoeff cfg ! 0
                        / (snr_linear cfg ! sn * secondary_gain cfg rng (trial_start cfg mc)
                             * powerCoeff cfg ! 1 + 1))
                < target_rate_primary_user cfg
             then 0.5 * ln (1 + snr_linear cfg ! sn * primary_gain cfg rng (trial_start cfg mc))
             else ln (1 + snr_linear cfg ! sn * primary_gain cfg rng (trial_start cfg mc)
                          * powerCoeff cfg ! 0
                        / (snr_linear cfg ! sn * secondary_gain cfg rng (trial_start cfg mc)
                             * powerCoeff cfg ! 1 + 1)))
        \<and> instantaneous_rate_secondary res ! mc ! sn =
            ln (1 + snr_linear cfg ! sn * secondary_gain cfg rng (trial_start cfg mc)
                      * powerCoeff cfg ! 1)
        \<and> out_probability_system res ! mc ! sn =
            (if instantaneous_rate_primary res ! mc ! sn < target_rate_primary_user cfg
                \<or> instantaneous_rate_secondary res ! mc ! sn < target_rate_secondary_user cfg
             then 1 else 0)
        \<and> out_probability_primary_user res ! mc ! sn =
            (if instantaneous_rate_primary res ! mc ! sn < target_rate_primary_user cfg
             then 1 else 0)
        \<and> out_probability_secondary_user res ! mc ! sn =
            (if instantaneous_rate_secondary res ! mc ! sn < target_rate_secondary_user cfg
             then 1 else 0)
        \<and> average_rate res ! mc ! sn =
            (instantaneous_rate_primary res ! mc ! sn
             + instantaneous_rate_secondary res ! mc ! sn) / 2"
    unfolding trial_point_value_def outage_point_def by blast
  with run show ?thesis by blast
qed

text \<open>
  An instance of the amended C8: the invalid parameters above with the draws
  \<open>unordered_draws\<close>. The first user is at \<open>x = -1\<close>, the radial coordinate \<open>sqrt (1/4) * (-2)\<close>
  as it is; the gains are 1/1804 and 2/905; the secondary rate uses the coefficient 0.3
  as it is, and with the negative target rates no entry is an outage.
\<close>

theorem C8_witness:
  "M_uav invalid_config = 1 \<and> 0 < N_users invalid_config
   \<and> 0 \<le> K_factor invalid_config \<and> 0 \<le> P_los invalid_config
   \<and> 1 < length (powerCoeff invalid_config)
   \<and> 0 \<le> powerCoeff invalid_config ! 0 \<and> 0 \<le> powerCoeff invalid_config ! 1
   \<and> radius_user invalid_config = - 2
   \<and> powerCoeff invalid_config = [8 / 10, 3 / 10]
   \<and> simulation invalid_config unordered_draws
     = Inr (\<lparr>out_probability_system = [[0]], out_probability_secondary_user = [[0]],
             out_probability_primary_user = [[0]],
             average_rate = [[(ln (412671 / 410861) + ln (911 / 905)) / 2]],
             instantaneous_rate_secondary = [[ln (911 / 905)]],
             instantaneous_rate_primary = [[ln (412671 / 410861)]]\<rparr>, 13)
   \<and> trial_start invalid_config (N_mc invalid_config) = 13
   \<and> user_x invalid_config unordered_draws 0 0 = - 1
   \<and> primary_gain invalid_config unordered_draws (trial_start invalid_config 0) = 1 / 1804
   \<and> secondary_gain invalid_config unordered_draws (trial_start invalid_config 0) = 2 / 905
   \<and> ln (412671 / 410861 :: real)
       = ln (1 + 10 * (1 / 1804) * (8 / 10) / (10 * (2 / 905) * (3 / 10) + 1))
   \<and> ln (911 / 905 :: real) = ln (1 + 10 * (2 / 905) * (3 / 10))"
proof -
  have sg: "0 \<le> rician_sigma invalid_config"
    by (simp add: script_rician [OF invalid_fields(12,13)])
  have g: "primary_gain invalid_config unordered_draws 0 = 1 / 1804"
    "secondary_gain invalid_config unordered_draws 0 = 2 / 905"
    using trial_gains_value [of invalid_config unordered_draws 0] invalid_gains sg
    by (simp_all add: invalid_fields)
  have s: "sqrt (1 / 4 :: real) = 1 / 2"
    by (rule real_sqrt_unique) (simp_all add: power2_eq_square)
  have x: "user_x invalid_config unordered_draws 0 0 = - 1"
    using s by (simp add: user_x_def invalid_fields draws_at)
  from C8_values_used_as_given [of invalid_config unordered_draws] invalid_simulation g x
  show ?thesis
    by (simp add: invalid_fields trial_start_def)
qed

end
